theory Spec2Isabelle
  imports Main
begin

section \<open>Data model\<close>

text \<open>
  The services of the repository talk to a relational store through Prisma. Each table is
  a list of rows, a row is a record, and the whole store is the record \<open>DB\<close> that every
  operation receives and returns. Identifiers are strings, as in the source. Columns that
  no modelled operation reads (images, rarity, JSON delivery data, timestamps of rows
  other than purchases and fulfillments) are left out. The column defaults of the Prisma
  schema (generated keys, \<open>createdAt = now()\<close>, \<open>attempts = 0\<close>,
  \<open>isConsumed = false\<close>) are written where a row is created. Numbers are integers.
\<close>

type_synonym ident = string

datatype ItemType = CONSUMABLE | NON_CONSUMABLE

datatype DeliveryType = IN_GAME | EMAIL | SHOPIFY | FUNCTIONAL

datatype PurchaseStatus = PurchasePENDING | PurchaseCOMPLETED | PurchaseFAILED | PurchaseREFUNDED

datatype FulfillmentStatus = PENDING | PROCESSING | COMPLETED | FAILED | RETRY

datatype TransactionType = CREDIT | DEBIT

text \<open>
  A store item. \<open>si_gemAmount\<close> and \<open>si_instant\<close> are the two entries of the JSON column
  \<open>metadata\<close> that the purchase service reads (\<open>metadata?.gemAmount\<close>,
  \<open>metadata?.instant\<close>, the latter by its truthiness); \<open>si_slot\<close> and \<open>si_weaponClass\<close>
  are the entries of \<open>gameSpecificData\<close> that the equipment code reads.
\<close>

record StoreItem =
  si_id :: ident
  si_name :: string
  si_price :: int
  si_category :: string
  si_type :: ItemType
  si_deliveryType :: DeliveryType
  si_gameId :: "ident option"
  si_isActive :: bool
  si_gemAmount :: "int option"
  si_instant :: bool
  si_slot :: "string option"
  si_weaponClass :: "string option"

record UserWallet =
  uw_id :: ident
  uw_userId :: ident
  uw_balance :: int

datatype Description = PurchaseOfItems nat | GemPack string int | Text string

record WalletTransaction =
  wt_walletId :: ident
  wt_type :: TransactionType
  wt_amount :: int
  wt_description :: Description
  wt_referenceId :: string

record Purchase =
  pu_id :: ident
  pu_userId :: ident
  pu_totalAmount :: int
  pu_status :: PurchaseStatus
  pu_paymentMethod :: string
  pu_createdAt :: int

record PurchaseItem =
  pit_purchaseId :: ident
  pit_itemId :: ident
  pit_quantity :: int
  pit_unitPrice :: int
  pit_totalPrice :: int

record UserInventory =
  ui_userId :: ident
  ui_itemId :: ident
  ui_quantity :: int
  ui_isConsumed :: bool

record ItemFulfillment =
  if_purchaseId :: ident
  if_userId :: ident
  if_itemId :: ident
  if_status :: FulfillmentStatus
  if_deliveryType :: DeliveryType
  if_attempts :: int
  if_lastAttempt :: "int option"
  if_completedAt :: "int option"

record Game =
  g_id :: ident
  g_isActive :: bool

record CharacterProfile =
  cp_id :: ident
  cp_userId :: ident
  cp_name :: string
  cp_gameId :: "ident option"
  cp_isActive :: bool

record CharacterEquippedItem =
  ce_profileId :: ident
  ce_itemId :: ident
  ce_slot :: string

record DB =
  tbl_storeItem :: "StoreItem list"
  tbl_userWallet :: "UserWallet list"
  tbl_walletTransaction :: "WalletTransaction list"
  tbl_purchase :: "Purchase list"
  tbl_purchaseItem :: "PurchaseItem list"
  tbl_userInventory :: "UserInventory list"
  tbl_itemFulfillment :: "ItemFulfillment list"
  tbl_game :: "Game list"
  tbl_characterProfile :: "CharacterProfile list"
  tbl_characterEquippedItem :: "CharacterEquippedItem list"
  idCounter :: nat

text \<open>
  Keys generated by the store (\<open>cuid()\<close> in Prisma) are drawn from the counter of the
  store: the n-th generated key is the letter c followed by n zeros.
\<close>

definition cuid :: "nat \<Rightarrow> ident" where
  "cuid n = CHR ''c'' # replicate n (CHR ''0'')"

subsection \<open>Errors\<close>

text \<open>
  The three exception classes the services throw, each with the message it carries. The
  messages are a datatype, so that the interpolated values stay values.
  \<open>InternalServerError\<close> is any failure that is not one of the three: a rejected storage
  call or a property read on \<open>undefined\<close>.
\<close>

datatype Message =
    DuplicatePurchaseDetected
  | AtLeastOneItemRequired
  | ItemsNotFoundOrInactive
  | ItemNotFound ident
  | QuantityBetween1And100
  | NonConsumableQuantity1 string
  | UserWalletNotFound
  | InsufficientGems int int
  | InsufficientGemsForThisPurchase
  | YouAlreadyOwn string
  | PurchaseNotFound
  | PurchaseNotFoundOrCannotBeRetried
  | NoFailedFulfillmentsToRetry
  | CharacterProfileNotFound
  | GameNotFoundOrInactive
  | CharacterNameExists string bool
  | ItemNotInInventoryOrConsumed
  | ConsumableItemsCannotBeEquipped
  | ItemIsForOtherGame ident string

datatype error =
    NotFoundException Message
  | BadRequestException Message
  | ConflictException Message
  | InternalServerError

text \<open>JavaScript truthiness of an optional string: present and not empty.\<close>

definition truthy :: "string option \<Rightarrow> bool" where
  "truthy s = (case s of None \<Rightarrow> False | Some v \<Rightarrow> v \<noteq> [])"

text \<open>
  \<open>prisma.$transaction\<close>: the writes of the callback are kept when it returns and
  dropped when it throws.
\<close>

definition transaction :: "(DB \<Rightarrow> error + ('a \<times> DB)) \<Rightarrow> DB \<Rightarrow> (error + 'a) \<times> DB" where
  "transaction f db = (case f db of Inl e \<Rightarrow> (Inl e, db) | Inr (r, db') \<Rightarrow> (Inr r, db'))"

section \<open>The purchase service\<close>

record PurchaseItemDto =
  pi_itemId :: ident
  pi_quantity :: int

record CreatePurchaseDto =
  dto_items :: "PurchaseItemDto list"
  dto_idempotencyKey :: "string option"

type_synonym PurchaseResponseDto = "Purchase \<times> PurchaseItem list"

text \<open>
  \<open>checkDuplicatePurchase\<close>: the first purchase of the user created in the last five
  minutes. The key is a parameter and is not used, as in the source. \<open>now\<close> is
  \<open>Date.now()\<close>, in milliseconds.
\<close>

definition checkDuplicatePurchase :: "DB \<Rightarrow> int \<Rightarrow> ident \<Rightarrow> string \<Rightarrow> Purchase option" where
  "checkDuplicatePurchase db now userId key =
     find (\<lambda>p. pu_userId p = userId \<and> now - 5 * 60 * 1000 \<le> pu_createdAt p) (tbl_purchase db)"

text \<open>
  The loop of \<open>validatePurchaseItems\<close>. \<open>itemsMap\<close> is the JavaScript \<open>Map\<close> built from
  the rows found; a later row with the same key replaces an earlier one.
\<close>

definition itemsMap :: "StoreItem list \<Rightarrow> ident \<Rightarrow> StoreItem option" where
  "itemsMap storeItems = map_of (rev (map (\<lambda>s. (si_id s, s)) storeItems))"

fun validateLoop :: "StoreItem list \<Rightarrow> PurchaseItemDto list \<Rightarrow> int \<Rightarrow> error + int" where
  "validateLoop storeItems [] totalCost = Inr totalCost"
| "validateLoop storeItems (purchaseItem # rest) totalCost =
     (case itemsMap storeItems (pi_itemId purchaseItem) of
        None \<Rightarrow> Inl (NotFoundException (ItemNotFound (pi_itemId purchaseItem)))
      | Some storeItem \<Rightarrow>
          if pi_quantity purchaseItem \<le> 0 \<or> pi_quantity purchaseItem > 100
          then Inl (BadRequestException QuantityBetween1And100)
          else if si_type storeItem = NON_CONSUMABLE \<and> pi_quantity purchaseItem \<noteq> 1
          then Inl (BadRequestException (NonConsumableQuantity1 (si_name storeItem)))
          else validateLoop storeItems rest
                 (totalCost + si_price storeItem * pi_quantity purchaseItem))"

definition validatePurchaseItems ::
  "DB \<Rightarrow> PurchaseItemDto list \<Rightarrow> error + (StoreItem list \<times> int)" where
  "validatePurchaseItems db its =
     (if its = [] then Inl (BadRequestException AtLeastOneItemRequired)
      else
        let itemIds = map pi_itemId its;
            storeItems = filter (\<lambda>s. si_id s \<in> set itemIds \<and> si_isActive s) (tbl_storeItem db)
        in if length storeItems \<noteq> length itemIds
           then Inl (NotFoundException ItemsNotFoundOrInactive)
           else (case validateLoop storeItems its 0 of
                   Inl e \<Rightarrow> Inl e
                 | Inr totalCost \<Rightarrow> Inr (storeItems, totalCost)))"

definition getUserWallet :: "DB \<Rightarrow> ident \<Rightarrow> error + UserWallet" where
  "getUserWallet db userId =
     (case find (\<lambda>w. uw_userId w = userId) (tbl_userWallet db) of
        None \<Rightarrow> Inl (NotFoundException UserWalletNotFound)
      | Some wallet \<Rightarrow> Inr wallet)"

text \<open>\<open>storeItems.find(si => si.id === id)\<close>.\<close>

definition findStoreItem :: "StoreItem list \<Rightarrow> ident \<Rightarrow> StoreItem option" where
  "findStoreItem storeItems i = find (\<lambda>si. si_id si = i) storeItems"

definition findInventory :: "DB \<Rightarrow> ident \<Rightarrow> ident \<Rightarrow> UserInventory option" where
  "findInventory db userId i =
     find (\<lambda>r. ui_userId r = userId \<and> ui_itemId r = i) (tbl_userInventory db)"

text \<open>
  In the loops below a store item that \<open>find\<close> does not return makes the next property
  read throw a \<open>TypeError\<close>, which is \<open>InternalServerError\<close> here.
\<close>

fun validateNonConsumableOwnership ::
  "DB \<Rightarrow> ident \<Rightarrow> PurchaseItemDto list \<Rightarrow> StoreItem list \<Rightarrow> error + unit" where
  "validateNonConsumableOwnership db userId [] storeItems = Inr ()"
| "validateNonConsumableOwnership db userId (purchaseItem # rest) storeItems =
     (case findStoreItem storeItems (pi_itemId purchaseItem) of
        None \<Rightarrow> Inl InternalServerError
      | Some storeItem \<Rightarrow>
          if si_type storeItem = NON_CONSUMABLE
             \<and> findInventory db userId (pi_itemId purchaseItem) \<noteq> None
          then Inl (BadRequestException (YouAlreadyOwn (si_name storeItem)))
          else validateNonConsumableOwnership db userId rest storeItems)"

text \<open>
  \<open>tx.userWallet.update({where: {userId}, data: {balance: {increment: d}}})\<close>: the row of
  the user is changed and returned; Prisma rejects the call when there is no such row.
\<close>

definition updateWalletBalance :: "DB \<Rightarrow> ident \<Rightarrow> int \<Rightarrow> error + (UserWallet \<times> DB)" where
  "updateWalletBalance db userId d =
     (case find (\<lambda>w. uw_userId w = userId) (tbl_userWallet db) of
        None \<Rightarrow> Inl InternalServerError
      | Some wallet \<Rightarrow>
          Inr (wallet\<lparr>uw_balance := uw_balance wallet + d\<rparr>,
               db\<lparr>tbl_userWallet :=
                    map (\<lambda>w. if uw_userId w = userId then w\<lparr>uw_balance := uw_balance w + d\<rparr> else w)
                      (tbl_userWallet db)\<rparr>))"

fun createPurchaseItems ::
  "ident \<Rightarrow> PurchaseItemDto list \<Rightarrow> StoreItem list \<Rightarrow> DB \<Rightarrow> error + DB" where
  "createPurchaseItems purchaseId [] storeItems db = Inr db"
| "createPurchaseItems purchaseId (item # rest) storeItems db =
     (case findStoreItem storeItems (pi_itemId item) of
        None \<Rightarrow> Inl InternalServerError
      | Some storeItem \<Rightarrow>
          createPurchaseItems purchaseId rest storeItems
            (db\<lparr>tbl_purchaseItem := tbl_purchaseItem db @
                  [\<lparr>pit_purchaseId = purchaseId, pit_itemId = pi_itemId item,
                    pit_quantity = pi_quantity item, pit_unitPrice = si_price storeItem,
                    pit_totalPrice = si_price storeItem * pi_quantity item\<rparr>]\<rparr>))"

text \<open>
  \<open>addItemsToInventory\<close>. The table has the compound unique key \<open>userId_itemId\<close>, so
  \<open>create\<close> is rejected by the store when the pair is already there.
\<close>

fun addItemsToInventory ::
  "ident \<Rightarrow> PurchaseItemDto list \<Rightarrow> StoreItem list \<Rightarrow> DB \<Rightarrow> error + DB" where
  "addItemsToInventory userId [] storeItems db = Inr db"
| "addItemsToInventory userId (item # rest) storeItems db =
     (case findStoreItem storeItems (pi_itemId item) of
        None \<Rightarrow> Inl InternalServerError
      | Some storeItem \<Rightarrow>
          if si_deliveryType storeItem = FUNCTIONAL \<and> si_instant storeItem
          then addItemsToInventory userId rest storeItems db
          else if si_type storeItem = CONSUMABLE
          then addItemsToInventory userId rest storeItems
                 (case findInventory db userId (pi_itemId item) of
                    Some _ \<Rightarrow>
                      db\<lparr>tbl_userInventory :=
                           map (\<lambda>r. if ui_userId r = userId \<and> ui_itemId r = pi_itemId item
                                     then r\<lparr>ui_quantity := ui_quantity r + pi_quantity item\<rparr>
                                     else r)
                             (tbl_userInventory db)\<rparr>
                  | None \<Rightarrow>
                      db\<lparr>tbl_userInventory := tbl_userInventory db @
                           [\<lparr>ui_userId = userId, ui_itemId = pi_itemId item,
                             ui_quantity = pi_quantity item, ui_isConsumed = False\<rparr>]\<rparr>)
          else (case findInventory db userId (pi_itemId item) of
                  Some _ \<Rightarrow> Inl InternalServerError
                | None \<Rightarrow>
                    addItemsToInventory userId rest storeItems
                      (db\<lparr>tbl_userInventory := tbl_userInventory db @
                           [\<lparr>ui_userId = userId, ui_itemId = pi_itemId item,
                             ui_quantity = 1, ui_isConsumed = False\<rparr>]\<rparr>)))"

text \<open>
  \<open>processFunctionalItems\<close>. \<open>metadata?.gemAmount && metadata?.instant\<close> holds when the
  amount is present and not zero and \<open>instant\<close> is truthy. The two other branches of the
  source (double XP, membership) only write to the log.
\<close>

fun processFunctionalItems ::
  "ident \<Rightarrow> PurchaseItemDto list \<Rightarrow> StoreItem list \<Rightarrow> ident \<Rightarrow> DB \<Rightarrow> error + DB" where
  "processFunctionalItems userId [] storeItems walletId db = Inr db"
| "processFunctionalItems userId (item # rest) storeItems walletId db =
     (case findStoreItem storeItems (pi_itemId item) of
        None \<Rightarrow> Inl InternalServerError
      | Some storeItem \<Rightarrow>
          if si_deliveryType storeItem = FUNCTIONAL
          then (case si_gemAmount storeItem of
                  None \<Rightarrow> processFunctionalItems userId rest storeItems walletId db
                | Some g \<Rightarrow>
                    if g \<noteq> 0 \<and> si_instant storeItem
                    then (case updateWalletBalance db userId (g * pi_quantity item) of
                            Inl e \<Rightarrow> Inl e
                          | Inr (_, db1) \<Rightarrow>
                              processFunctionalItems userId rest storeItems walletId
                                (db1\<lparr>tbl_walletTransaction := tbl_walletTransaction db1 @
                                      [\<lparr>wt_walletId = walletId, wt_type = CREDIT,
                                        wt_amount = g * pi_quantity item,
                                        wt_description = GemPack (si_name storeItem) (pi_quantity item),
                                        wt_referenceId = ''gem-pack-'' @ si_id storeItem\<rparr>]\<rparr>))
                    else processFunctionalItems userId rest storeItems walletId db)
          else processFunctionalItems userId rest storeItems walletId db)"

text \<open>
  The enumeration has four members, so the \<open>default\<close> branch of the source's \<open>switch\<close>
  is never taken.
\<close>

fun getFulfillmentStatus :: "DeliveryType \<Rightarrow> FulfillmentStatus" where
  "getFulfillmentStatus IN_GAME = COMPLETED"
| "getFulfillmentStatus FUNCTIONAL = COMPLETED"
| "getFulfillmentStatus EMAIL = PENDING"
| "getFulfillmentStatus SHOPIFY = PENDING"

definition newFulfillment ::
  "ident \<Rightarrow> ident \<Rightarrow> int \<Rightarrow> PurchaseItemDto \<Rightarrow> StoreItem \<Rightarrow> ItemFulfillment" where
  "newFulfillment purchaseId userId now item storeItem =
     (let fulfillmentStatus = getFulfillmentStatus (si_deliveryType storeItem)
      in \<lparr>if_purchaseId = purchaseId, if_userId = userId, if_itemId = pi_itemId item,
          if_status = fulfillmentStatus, if_deliveryType = si_deliveryType storeItem,
          if_attempts = 0, if_lastAttempt = None,
          if_completedAt = (if fulfillmentStatus = COMPLETED then Some now else None)\<rparr>)"

fun createFulfillmentRecords ::
  "ident \<Rightarrow> ident \<Rightarrow> int \<Rightarrow> PurchaseItemDto list \<Rightarrow> StoreItem list \<Rightarrow> DB \<Rightarrow> error + DB" where
  "createFulfillmentRecords purchaseId userId now [] storeItems db = Inr db"
| "createFulfillmentRecords purchaseId userId now (item # rest) storeItems db =
     (case findStoreItem storeItems (pi_itemId item) of
        None \<Rightarrow> Inl InternalServerError
      | Some storeItem \<Rightarrow>
          createFulfillmentRecords purchaseId userId now rest storeItems
            (db\<lparr>tbl_itemFulfillment := tbl_itemFulfillment db @
                  [newFulfillment purchaseId userId now item storeItem]\<rparr>))"

definition getPurchaseWithDetails :: "DB \<Rightarrow> ident \<Rightarrow> error + PurchaseResponseDto" where
  "getPurchaseWithDetails db purchaseId =
     (case find (\<lambda>p. pu_id p = purchaseId) (tbl_purchase db) of
        None \<Rightarrow> Inl (NotFoundException PurchaseNotFound)
      | Some p \<Rightarrow> Inr (p, filter (\<lambda>i. pit_purchaseId i = purchaseId) (tbl_purchaseItem db)))"

text \<open>
  The callback of \<open>executePurchaseTransaction\<close>, in the order of the source: ownership
  check, debit, the check after the debit, the DEBIT row, the purchase row, its lines,
  the inventory, the functional items, the fulfillments, the reference of the DEBIT row,
  and the read of the finished purchase.
\<close>

definition purchaseTransactionBody ::
  "ident \<Rightarrow> PurchaseItemDto list \<Rightarrow> StoreItem list \<Rightarrow> int \<Rightarrow> int \<Rightarrow> DB
     \<Rightarrow> error + (PurchaseResponseDto \<times> DB)" where
  "purchaseTransactionBody userId its storeItems totalCost now db =
     (case validateNonConsumableOwnership db userId its storeItems of
        Inl e \<Rightarrow> Inl e
      | Inr _ \<Rightarrow>
     (case updateWalletBalance db userId (- totalCost) of
        Inl e \<Rightarrow> Inl e
      | Inr (updatedWallet, db1) \<Rightarrow>
     if uw_balance updatedWallet < 0
     then Inl (BadRequestException InsufficientGemsForThisPurchase)
     else
       let db2 = db1\<lparr>tbl_walletTransaction := tbl_walletTransaction db1 @
                     [\<lparr>wt_walletId = uw_id updatedWallet, wt_type = DEBIT,
                       wt_amount = totalCost,
                       wt_description = PurchaseOfItems (length its),
                       wt_referenceId = ''purchase-pending''\<rparr>]\<rparr>;
           purchaseId = cuid (idCounter db2);
           db3 = db2\<lparr>tbl_purchase := tbl_purchase db2 @
                     [\<lparr>pu_id = purchaseId, pu_userId = userId, pu_totalAmount = totalCost,
                       pu_status = PurchaseCOMPLETED, pu_paymentMethod = ''GEMS'',
                       pu_createdAt = now\<rparr>],
                    idCounter := Suc (idCounter db2)\<rparr>
       in
     (case createPurchaseItems purchaseId its storeItems db3 of
        Inl e \<Rightarrow> Inl e
      | Inr db4 \<Rightarrow>
     (case addItemsToInventory userId its storeItems db4 of
        Inl e \<Rightarrow> Inl e
      | Inr db5 \<Rightarrow>
     (case processFunctionalItems userId its storeItems (uw_id updatedWallet) db5 of
        Inl e \<Rightarrow> Inl e
      | Inr db6 \<Rightarrow>
     (case createFulfillmentRecords purchaseId userId now its storeItems db6 of
        Inl e \<Rightarrow> Inl e
      | Inr db7 \<Rightarrow>
       let db8 = db7\<lparr>tbl_walletTransaction :=
                     map (\<lambda>t. if wt_walletId t = uw_id updatedWallet
                                  \<and> wt_referenceId t = ''purchase-pending''
                               then t\<lparr>wt_referenceId := purchaseId\<rparr> else t)
                       (tbl_walletTransaction db7)\<rparr>
       in
     (case getPurchaseWithDetails db8 purchaseId of
        Inl e \<Rightarrow> Inl e
      | Inr response \<Rightarrow> Inr (response, db8))))))))"

definition executePurchaseTransaction ::
  "ident \<Rightarrow> PurchaseItemDto list \<Rightarrow> StoreItem list \<Rightarrow> int \<Rightarrow> int \<Rightarrow> DB
     \<Rightarrow> (error + PurchaseResponseDto) \<times> DB" where
  "executePurchaseTransaction userId its storeItems totalCost now db =
     transaction (purchaseTransactionBody userId its storeItems totalCost now) db"

text \<open>
  \<open>createPurchase\<close>. \<open>if (idempotencyKey)\<close> is the truthiness of the key: an absent key
  and the empty string both skip the check.
\<close>

definition createPurchase ::
  "ident \<Rightarrow> CreatePurchaseDto \<Rightarrow> int \<Rightarrow> DB \<Rightarrow> (error + PurchaseResponseDto) \<times> DB" where
  "createPurchase userId createPurchaseDto now db =
     (if truthy (dto_idempotencyKey createPurchaseDto)
         \<and> checkDuplicatePurchase db now userId (the (dto_idempotencyKey createPurchaseDto)) \<noteq> None
      then (Inl (ConflictException DuplicatePurchaseDetected), db)
      else
        (case validatePurchaseItems db (dto_items createPurchaseDto) of
           Inl e \<Rightarrow> (Inl e, db)
         | Inr (storeItems, totalCost) \<Rightarrow>
        (case getUserWallet db userId of
           Inl e \<Rightarrow> (Inl e, db)
         | Inr userWallet \<Rightarrow>
             if uw_balance userWallet < totalCost
             then (Inl (BadRequestException (InsufficientGems totalCost (uw_balance userWallet))), db)
             else executePurchaseTransaction userId (dto_items createPurchaseDto)
                    storeItems totalCost now db)))"

text \<open>
  \<open>retryPurchase\<close>: one query for the purchase of the user that is COMPLETED, with its
  FAILED fulfillments; then one \<open>updateMany\<close>.
\<close>

definition retryPurchase :: "ident \<Rightarrow> ident \<Rightarrow> int \<Rightarrow> DB \<Rightarrow> (error + nat) \<times> DB" where
  "retryPurchase userId purchaseId now db =
     (case find (\<lambda>p. pu_id p = purchaseId \<and> pu_userId p = userId \<and> pu_status p = PurchaseCOMPLETED)
             (tbl_purchase db) of
        None \<Rightarrow> (Inl (NotFoundException PurchaseNotFoundOrCannotBeRetried), db)
      | Some p \<Rightarrow>
          if filter (\<lambda>f. if_purchaseId f = pu_id p \<and> if_status f = FAILED) (tbl_itemFulfillment db) = []
          then (Inl (BadRequestException NoFailedFulfillmentsToRetry), db)
          else
            (Inr (length (filter (\<lambda>f. if_purchaseId f = purchaseId \<and> if_status f = FAILED)
                            (tbl_itemFulfillment db))),
             db\<lparr>tbl_itemFulfillment :=
                  map (\<lambda>f. if if_purchaseId f = purchaseId \<and> if_status f = FAILED
                            then f\<lparr>if_status := RETRY, if_attempts := if_attempts f + 1,
                                   if_lastAttempt := Some now\<rparr>
                            else f)
                    (tbl_itemFulfillment db)\<rparr>))"

section \<open>The character profile service\<close>

record CreateCharacterProfileDto =
  ccp_name :: string
  ccp_gameId :: "string option"


text \<open>
  \<open>createCharacterProfile\<close>. The game is looked up only for a truthy \<open>gameId\<close>; the
  name check compares with \<open>gameId || null\<close>; the row is created active, whatever other
  profiles the user has.
\<close>

definition createCharacterProfile ::
  "ident \<Rightarrow> CreateCharacterProfileDto \<Rightarrow> DB \<Rightarrow> (error + CharacterProfile) \<times> DB" where
  "createCharacterProfile userId dto db =
     (if truthy (ccp_gameId dto)
         \<and> find (\<lambda>g. Some (g_id g) = ccp_gameId dto \<and> g_isActive g) (tbl_game db) = None
      then (Inl (BadRequestException GameNotFoundOrInactive), db)
      else if find (\<lambda>p. cp_userId p = userId \<and> cp_name p = ccp_name dto
                          \<and> cp_gameId p = (if truthy (ccp_gameId dto) then ccp_gameId dto else None))
                (tbl_characterProfile db) \<noteq> None
      then (Inl (ConflictException (CharacterNameExists (ccp_name dto) (truthy (ccp_gameId dto)))), db)
      else
        let profile = \<lparr>cp_id = cuid (idCounter db), cp_userId = userId, cp_name = ccp_name dto,
                       cp_gameId = ccp_gameId dto, cp_isActive = True\<rparr>
        in (Inr profile,
            db\<lparr>tbl_characterProfile := tbl_characterProfile db @ [profile],
               idCounter := Suc (idCounter db)\<rparr>))"

text \<open>
  \<open>activateCharacterProfile\<close>: the profile of the user is read, then one transaction
  clears the flag of the other profiles of the user with the same \<open>gameId\<close> and sets the
  flag of this one.
\<close>

definition activateCharacterProfile :: "ident \<Rightarrow> ident \<Rightarrow> DB \<Rightarrow> (error + string) \<times> DB" where
  "activateCharacterProfile userId profileId db =
     (case find (\<lambda>p. cp_id p = profileId \<and> cp_userId p = userId) (tbl_characterProfile db) of
        None \<Rightarrow> (Inl (NotFoundException CharacterProfileNotFound), db)
      | Some profile \<Rightarrow>
          transaction
            (\<lambda>tx.
               let tx1 = tx\<lparr>tbl_characterProfile :=
                            map (\<lambda>p. if cp_userId p = userId \<and> cp_gameId p = cp_gameId profile
                                         \<and> cp_id p \<noteq> profileId
                                      then p\<lparr>cp_isActive := False\<rparr> else p)
                              (tbl_characterProfile tx)\<rparr>;
                   tx2 = tx1\<lparr>tbl_characterProfile :=
                            map (\<lambda>p. if cp_id p = profileId then p\<lparr>cp_isActive := True\<rparr> else p)
                              (tbl_characterProfile tx1)\<rparr>
               in Inr (cp_name profile, tx2))
            db)"





section \<open>A store to run the services on\<close>

text \<open>
  The rows of the seed script of the repository, with short keys: three games, five of
  the store items, the demo user with a wallet of 4500 gems, the three character
  profiles, the demo purchase and the Double XP Token it put into the inventory.
\<close>

definition akSkin :: StoreItem where
  "akSkin = \<lparr>si_id = ''ak'', si_name = ''Dragon's Breath AK-47'', si_price = 2500,
     si_category = ''SKIN'', si_type = NON_CONSUMABLE, si_deliveryType = IN_GAME,
     si_gameId = Some ''cod'', si_isActive = True, si_gemAmount = None, si_instant = False,
     si_slot = None, si_weaponClass = None\<rparr>"

definition ghostSkin :: StoreItem where
  "ghostSkin = \<lparr>si_id = ''ghost'', si_name = ''Ghost Operator Skin'', si_price = 1800,
     si_category = ''SKIN'', si_type = NON_CONSUMABLE, si_deliveryType = IN_GAME,
     si_gameId = Some ''cod'', si_isActive = True, si_gemAmount = None, si_instant = False,
     si_slot = None, si_weaponClass = None\<rparr>"

definition xpToken :: StoreItem where
  "xpToken = \<lparr>si_id = ''xp'', si_name = ''Double XP Token'', si_price = 500,
     si_category = ''CONSUMABLE'', si_type = CONSUMABLE, si_deliveryType = FUNCTIONAL,
     si_gameId = Some ''cod'', si_isActive = True, si_gemAmount = None, si_instant = False,
     si_slot = None, si_weaponClass = None\<rparr>"

definition tShirt :: StoreItem where
  "tShirt = \<lparr>si_id = ''shirt'', si_name = ''BattleBucks T-Shirt'', si_price = 1500,
     si_category = ''PHYSICAL_MERCH'', si_type = NON_CONSUMABLE, si_deliveryType = SHOPIFY,
     si_gameId = None, si_isActive = True, si_gemAmount = None, si_instant = False,
     si_slot = None, si_weaponClass = None\<rparr>"

definition gemPack :: StoreItem where
  "gemPack = \<lparr>si_id = ''gems'', si_name = ''1000 Gem Pack'', si_price = 0,
     si_category = ''DIGITAL_REWARD'', si_type = CONSUMABLE, si_deliveryType = FUNCTIONAL,
     si_gameId = None, si_isActive = True, si_gemAmount = Some 1000, si_instant = True,
     si_slot = None, si_weaponClass = None\<rparr>"

definition demoDB :: DB where
  "demoDB = \<lparr>
     tbl_storeItem = [akSkin, ghostSkin, xpToken, tShirt, gemPack],
     tbl_userWallet = [\<lparr>uw_id = ''w1'', uw_userId = ''u1'', uw_balance = 4500\<rparr>],
     tbl_walletTransaction =
       [\<lparr>wt_walletId = ''w1'', wt_type = CREDIT, wt_amount = 5000,
         wt_description = Text ''Welcome bonus'', wt_referenceId = ''WELCOME_BONUS''\<rparr>,
        \<lparr>wt_walletId = ''w1'', wt_type = DEBIT, wt_amount = 500,
         wt_description = Text ''Purchase: Double XP Token'', wt_referenceId = ''o1''\<rparr>],
     tbl_purchase =
       [\<lparr>pu_id = ''o1'', pu_userId = ''u1'', pu_totalAmount = 800,
         pu_status = PurchaseCOMPLETED, pu_paymentMethod = ''GEMS'', pu_createdAt = 0\<rparr>],
     tbl_purchaseItem =
       [\<lparr>pit_purchaseId = ''o1'', pit_itemId = ''xp'', pit_quantity = 1,
         pit_unitPrice = 500, pit_totalPrice = 500\<rparr>],
     tbl_userInventory =
       [\<lparr>ui_userId = ''u1'', ui_itemId = ''xp'', ui_quantity = 1, ui_isConsumed = False\<rparr>],
     tbl_itemFulfillment = [],
     tbl_game = [\<lparr>g_id = ''cod'', g_isActive = True\<rparr>, \<lparr>g_id = ''val'', g_isActive = True\<rparr>,
                 \<lparr>g_id = ''ftn'', g_isActive = True\<rparr>],
     tbl_characterProfile =
       [\<lparr>cp_id = ''p1'', cp_userId = ''u1'', cp_name = ''Ghost_Warrior'',
         cp_gameId = Some ''cod'', cp_isActive = True\<rparr>,
        \<lparr>cp_id = ''p2'', cp_userId = ''u1'', cp_name = ''RadiantSniper'',
         cp_gameId = Some ''val'', cp_isActive = False\<rparr>,
        \<lparr>cp_id = ''p3'', cp_userId = ''u1'', cp_name = ''BattleBucksChampion'',
         cp_gameId = None, cp_isActive = True\<rparr>],
     tbl_characterEquippedItem = [],
     idCounter = 0\<rparr>"

text \<open>
  The demo user after buying the two Call of Duty skins and the T-shirt, with one skin and
  the T-shirt equipped.
\<close>

definition equipDB :: DB where
  "equipDB = demoDB\<lparr>tbl_userInventory :=
     [\<lparr>ui_userId = ''u1'', ui_itemId = ''xp'', ui_quantity = 1, ui_isConsumed = False\<rparr>,
      \<lparr>ui_userId = ''u1'', ui_itemId = ''ak'', ui_quantity = 1, ui_isConsumed = False\<rparr>,
      \<lparr>ui_userId = ''u1'', ui_itemId = ''ghost'', ui_quantity = 1, ui_isConsumed = False\<rparr>,
      \<lparr>ui_userId = ''u1'', ui_itemId = ''shirt'', ui_quantity = 1, ui_isConsumed = False\<rparr>],
     tbl_characterEquippedItem :=
     [\<lparr>ce_profileId = ''p1'', ce_itemId = ''ghost'', ce_slot = ''primary''\<rparr>,
      \<lparr>ce_profileId = ''p3'', ce_itemId = ''shirt'', ce_slot = ''merchandise''\<rparr>]\<rparr>"

text \<open>
  Three purchases of the demo user: the first COMPLETED with one FAILED and one COMPLETED
  fulfillment, the second FAILED with a FAILED fulfillment, the third COMPLETED with a
  PENDING fulfillment.
\<close>

definition retryDB :: DB where
  "retryDB = demoDB\<lparr>
     tbl_purchase :=
       [\<lparr>pu_id = ''o1'', pu_userId = ''u1'', pu_totalAmount = 800,
         pu_status = PurchaseCOMPLETED, pu_paymentMethod = ''GEMS'', pu_createdAt = 0\<rparr>,
        \<lparr>pu_id = ''o2'', pu_userId = ''u1'', pu_totalAmount = 2500,
         pu_status = PurchaseFAILED, pu_paymentMethod = ''GEMS'', pu_createdAt = 10\<rparr>,
        \<lparr>pu_id = ''o3'', pu_userId = ''u1'', pu_totalAmount = 1500,
         pu_status = PurchaseCOMPLETED, pu_paymentMethod = ''GEMS'', pu_createdAt = 20\<rparr>],
     tbl_itemFulfillment :=
       [\<lparr>if_purchaseId = ''o1'', if_userId = ''u1'', if_itemId = ''xp'', if_status = FAILED,
         if_deliveryType = EMAIL, if_attempts = 1, if_lastAttempt = Some 5,
         if_completedAt = None\<rparr>,
        \<lparr>if_purchaseId = ''o1'', if_userId = ''u1'', if_itemId = ''gems'', if_status = COMPLETED,
         if_deliveryType = FUNCTIONAL, if_attempts = 0, if_lastAttempt = None,
         if_completedAt = Some 0\<rparr>,
        \<lparr>if_purchaseId = ''o2'', if_userId = ''u1'', if_itemId = ''ak'', if_status = FAILED,
         if_deliveryType = IN_GAME, if_attempts = 2, if_lastAttempt = Some 15,
         if_completedAt = None\<rparr>,
        \<lparr>if_purchaseId = ''o3'', if_userId = ''u1'', if_itemId = ''shirt'', if_status = PENDING,
         if_deliveryType = SHOPIFY, if_attempts = 0, if_lastAttempt = None,
         if_completedAt = None\<rparr>]\<rparr>"

section \<open>Notions used in the statements\<close>

definition isConflict :: "error \<Rightarrow> bool" where
  "isConflict e = (case e of ConflictException _ \<Rightarrow> True | _ \<Rightarrow> False)"

text \<open>What \<open>retryPurchase\<close> writes into a fulfillment it retries.\<close>

definition retried :: "int \<Rightarrow> ItemFulfillment \<Rightarrow> ItemFulfillment" where
  "retried now f =
     f\<lparr>if_status := RETRY, if_attempts := if_attempts f + 1, if_lastAttempt := Some now\<rparr>"

text \<open>The active profiles of one partition: a user and a game, or no game.\<close>

definition activeProfiles :: "DB \<Rightarrow> ident \<Rightarrow> ident option \<Rightarrow> CharacterProfile list" where
  "activeProfiles db userId gameId =
     filter (\<lambda>p. cp_userId p = userId \<and> cp_gameId p = gameId \<and> cp_isActive p)
       (tbl_characterProfile db)"


text \<open>
  The store item a line refers to, and the rows the loops of the purchase transaction
  write for one line.
\<close>

definition lineItem :: "StoreItem list \<Rightarrow> PurchaseItemDto \<Rightarrow> StoreItem" where
  "lineItem storeItems l = the (findStoreItem storeItems (pi_itemId l))"

definition allFound :: "StoreItem list \<Rightarrow> PurchaseItemDto list \<Rightarrow> bool" where
  "allFound storeItems its = list_all (\<lambda>l. findStoreItem storeItems (pi_itemId l) \<noteq> None) its"

definition newPurchaseItem :: "ident \<Rightarrow> StoreItem list \<Rightarrow> PurchaseItemDto \<Rightarrow> PurchaseItem" where
  "newPurchaseItem purchaseId storeItems l =
     \<lparr>pit_purchaseId = purchaseId, pit_itemId = pi_itemId l, pit_quantity = pi_quantity l,
      pit_unitPrice = si_price (lineItem storeItems l),
      pit_totalPrice = si_price (lineItem storeItems l) * pi_quantity l\<rparr>"

text \<open>The gems a line credits: those of an instant gem pack, times the quantity.\<close>

definition gemCredit :: "StoreItem \<Rightarrow> PurchaseItemDto \<Rightarrow> int option" where
  "gemCredit s l =
     (case si_gemAmount s of
        None \<Rightarrow> None
      | Some g \<Rightarrow> if si_deliveryType s = FUNCTIONAL \<and> g \<noteq> 0 \<and> si_instant s
                  then Some (g * pi_quantity l) else None)"

definition totalCredit :: "StoreItem list \<Rightarrow> PurchaseItemDto list \<Rightarrow> int" where
  "totalCredit storeItems its =
     sum_list (map (\<lambda>l. case gemCredit (lineItem storeItems l) l of None \<Rightarrow> 0 | Some c \<Rightarrow> c) its)"

definition creditRows :: "ident \<Rightarrow> StoreItem list \<Rightarrow> PurchaseItemDto list \<Rightarrow> WalletTransaction list" where
  "creditRows walletId storeItems its =
     concat (map (\<lambda>l. case gemCredit (lineItem storeItems l) l of
                        None \<Rightarrow> []
                      | Some c \<Rightarrow>
                          [\<lparr>wt_walletId = walletId, wt_type = CREDIT, wt_amount = c,
                            wt_description = GemPack (si_name (lineItem storeItems l)) (pi_quantity l),
                            wt_referenceId = ''gem-pack-'' @ si_id (lineItem storeItems l)\<rparr>]) its)"

definition debitRow :: "ident \<Rightarrow> int \<Rightarrow> nat \<Rightarrow> WalletTransaction" where
  "debitRow walletId totalCost n =
     \<lparr>wt_walletId = walletId, wt_type = DEBIT, wt_amount = totalCost,
      wt_description = PurchaseOfItems n, wt_referenceId = ''purchase-pending''\<rparr>"

definition creditBy :: "ident \<Rightarrow> int \<Rightarrow> UserWallet \<Rightarrow> UserWallet" where
  "creditBy userId d w = (if uw_userId w = userId then w\<lparr>uw_balance := uw_balance w + d\<rparr> else w)"

definition setReference :: "ident \<Rightarrow> ident \<Rightarrow> WalletTransaction \<Rightarrow> WalletTransaction" where
  "setReference walletId purchaseId t =
     (if wt_walletId t = walletId \<and> wt_referenceId t = ''purchase-pending''
      then t\<lparr>wt_referenceId := purchaseId\<rparr> else t)"

definition newPurchase :: "ident \<Rightarrow> ident \<Rightarrow> int \<Rightarrow> int \<Rightarrow> Purchase" where
  "newPurchase purchaseId userId totalCost now =
     \<lparr>pu_id = purchaseId, pu_userId = userId, pu_totalAmount = totalCost,
      pu_status = PurchaseCOMPLETED, pu_paymentMethod = ''GEMS'', pu_createdAt = now\<rparr>"

text \<open>The loop of \<open>addItemsToInventory\<close> on the inventory table alone.\<close>

fun grantInventory ::
  "ident \<Rightarrow> PurchaseItemDto list \<Rightarrow> StoreItem list \<Rightarrow> UserInventory list
     \<Rightarrow> error + UserInventory list" where
  "grantInventory userId [] storeItems rows = Inr rows"
| "grantInventory userId (item # rest) storeItems rows =
     (case findStoreItem storeItems (pi_itemId item) of
        None \<Rightarrow> Inl InternalServerError
      | Some storeItem \<Rightarrow>
          if si_deliveryType storeItem = FUNCTIONAL \<and> si_instant storeItem
          then grantInventory userId rest storeItems rows
          else if si_type storeItem = CONSUMABLE
          then grantInventory userId rest storeItems
                 (case find (\<lambda>r. ui_userId r = userId \<and> ui_itemId r = pi_itemId item) rows of
                    Some _ \<Rightarrow>
                      map (\<lambda>r. if ui_userId r = userId \<and> ui_itemId r = pi_itemId item
                                then r\<lparr>ui_quantity := ui_quantity r + pi_quantity item\<rparr>
                                else r) rows
                  | None \<Rightarrow>
                      rows @ [\<lparr>ui_userId = userId, ui_itemId = pi_itemId item,
                              ui_quantity = pi_quantity item, ui_isConsumed = False\<rparr>])
          else (case find (\<lambda>r. ui_userId r = userId \<and> ui_itemId r = pi_itemId item) rows of
                  Some _ \<Rightarrow> Inl InternalServerError
                | None \<Rightarrow>
                    grantInventory userId rest storeItems
                      (rows @ [\<lparr>ui_userId = userId, ui_itemId = pi_itemId item,
                               ui_quantity = 1, ui_isConsumed = False\<rparr>])))"

text \<open>The store a committed purchase leaves behind.\<close>

definition committed ::
  "ident \<Rightarrow> PurchaseItemDto list \<Rightarrow> StoreItem list \<Rightarrow> int \<Rightarrow> int \<Rightarrow> UserWallet
     \<Rightarrow> UserInventory list \<Rightarrow> DB \<Rightarrow> DB" where
  "committed userId its storeItems totalCost now wallet rows db =
     db\<lparr>tbl_purchase :=
          tbl_purchase db @ [newPurchase (cuid (idCounter db)) userId totalCost now],
        idCounter := Suc (idCounter db),
        tbl_purchaseItem :=
          tbl_purchaseItem db @ map (newPurchaseItem (cuid (idCounter db)) storeItems) its,
        tbl_userInventory := rows,
        tbl_userWallet :=
          map (creditBy userId (totalCredit storeItems its - totalCost)) (tbl_userWallet db),
        tbl_itemFulfillment :=
          tbl_itemFulfillment db
            @ map (\<lambda>l. newFulfillment (cuid (idCounter db)) userId now l (lineItem storeItems l)) its,
        tbl_walletTransaction :=
          map (setReference (uw_id wallet) (cuid (idCounter db)))
            (tbl_walletTransaction db @ debitRow (uw_id wallet) totalCost (length its)
               # creditRows (uw_id wallet) storeItems its)\<rparr>"

text \<open>The rows of the inventory for one user and item.\<close>

definition ownedRows :: "ident \<Rightarrow> ident \<Rightarrow> UserInventory list \<Rightarrow> UserInventory list" where
  "ownedRows userId i rows = filter (\<lambda>r. ui_userId r = userId \<and> ui_itemId r = i) rows"

text \<open>
  The duplicate check of \<open>createPurchase\<close> fires: the key is truthy and the user has a
  purchase created in the last five minutes.
\<close>

definition suppressed :: "DB \<Rightarrow> int \<Rightarrow> ident \<Rightarrow> CreatePurchaseDto \<Rightarrow> bool" where
  "suppressed db now userId dto =
     (truthy (dto_idempotencyKey dto)
      \<and> list_ex (\<lambda>p. pu_userId p = userId \<and> now - 300000 \<le> pu_createdAt p) (tbl_purchase db))"

text \<open>The amounts of the CREDIT rows of a purchase, in the order of its lines.\<close>

definition credits :: "StoreItem list \<Rightarrow> PurchaseItemDto list \<Rightarrow> int list" where
  "credits storeItems its = List.map_filter (\<lambda>l. gemCredit (lineItem storeItems l) l) its"

text \<open>Requests of the demo user.\<close>

definition request :: "(ident \<times> int) list \<Rightarrow> string option \<Rightarrow> CreatePurchaseDto" where
  "request lines key =
     \<lparr>dto_items = map (\<lambda>(i, q). \<lparr>pi_itemId = i, pi_quantity = q\<rparr>) lines,
      dto_idempotencyKey = key\<rparr>"

text \<open>The demo store with 1000 gems in the wallet and an empty inventory.\<close>

definition scenarioDB :: DB where
  "scenarioDB = demoDB\<lparr>
     tbl_userWallet := [\<lparr>uw_id = ''w1'', uw_userId = ''u1'', uw_balance = 1000\<rparr>],
     tbl_userInventory := []\<rparr>"

section \<open>Auxiliary facts\<close>

lemma find_Some_props: "find P xs = Some x \<Longrightarrow> P x \<and> x \<in> set xs"
  by (induction xs) (auto split: if_splits)

lemma find_None_conv: "(find P xs = None) = (\<forall>x\<in>set xs. \<not> P x)"
  by (induction xs) auto

subsection \<open>The purchase pipeline never throws ConflictException after the duplicate check\<close>

lemma validateLoop_noConflict: "validateLoop sis its acc = Inl e \<Longrightarrow> \<not> isConflict e"
  by (induction its arbitrary: acc) (auto simp: isConflict_def split: option.splits if_splits)

lemma validatePurchaseItems_noConflict: "validatePurchaseItems db its = Inl e \<Longrightarrow> \<not> isConflict e"
  by (auto simp: validatePurchaseItems_def Let_def isConflict_def split: if_splits sum.splits
           dest: validateLoop_noConflict)

lemma validateNonConsumableOwnership_noConflict:
  "validateNonConsumableOwnership db u its sis = Inl e \<Longrightarrow> \<not> isConflict e"
  by (induction its) (auto simp: isConflict_def split: option.splits if_splits)

lemma updateWalletBalance_noConflict: "updateWalletBalance db u d = Inl e \<Longrightarrow> \<not> isConflict e"
  by (auto simp: updateWalletBalance_def isConflict_def split: option.splits)

lemma createPurchaseItems_noConflict:
  "createPurchaseItems p its sis db = Inl e \<Longrightarrow> \<not> isConflict e"
  by (induction its arbitrary: db) (auto simp: isConflict_def split: option.splits)

lemma addItemsToInventory_noConflict:
  "addItemsToInventory u its sis db = Inl e \<Longrightarrow> \<not> isConflict e"
  by (induction its arbitrary: db) (auto simp: isConflict_def split: option.splits if_splits)

lemma processFunctionalItems_noConflict:
  "processFunctionalItems u its sis w db = Inl e \<Longrightarrow> \<not> isConflict e"
  by (induction its arbitrary: db)
     (auto simp: isConflict_def split: option.splits if_splits sum.splits prod.splits
           dest: updateWalletBalance_noConflict)

lemma createFulfillmentRecords_noConflict:
  "createFulfillmentRecords p u n its sis db = Inl e \<Longrightarrow> \<not> isConflict e"
  by (induction its arbitrary: db) (auto simp: isConflict_def split: option.splits)

lemma getPurchaseWithDetails_noConflict:
  "getPurchaseWithDetails db p = Inl e \<Longrightarrow> \<not> isConflict e"
  by (auto simp: getPurchaseWithDetails_def isConflict_def split: option.splits)

lemma purchaseTransactionBody_noConflict:
  "purchaseTransactionBody u its sis t n db = Inl e \<Longrightarrow> \<not> isConflict e"
  unfolding purchaseTransactionBody_def Let_def
  by (auto split: sum.splits prod.splits if_splits
           dest: validateNonConsumableOwnership_noConflict updateWalletBalance_noConflict
                 createPurchaseItems_noConflict addItemsToInventory_noConflict
                 processFunctionalItems_noConflict createFulfillmentRecords_noConflict
                 getPurchaseWithDetails_noConflict simp: isConflict_def)

lemma createPurchase_afterCheck_noConflict:
  assumes "\<not> (truthy (dto_idempotencyKey dto)
             \<and> checkDuplicatePurchase db now u (the (dto_idempotencyKey dto)) \<noteq> None)"
  shows "fst (createPurchase u dto now db) \<noteq> Inl (ConflictException m)"
proof
  assume c: "fst (createPurchase u dto now db) = Inl (ConflictException m)"
  show False
  proof (cases "validatePurchaseItems db (dto_items dto)")
    case (Inl e)
    with assms c validatePurchaseItems_noConflict [OF Inl] show False
      by (auto simp: createPurchase_def isConflict_def)
  next
    case (Inr r)
    obtain sis total where r: "r = (sis, total)" by (cases r)
    show False
    proof (cases "getUserWallet db u")
      case (Inl e)
      with assms c Inr r show False
        by (auto simp: createPurchase_def getUserWallet_def split: option.splits)
    next
      case w: (Inr w)
      show False
      proof (cases "purchaseTransactionBody u (dto_items dto) sis total now db")
        case (Inl e)
        with assms c Inr r w purchaseTransactionBody_noConflict [OF Inl] show False
          by (auto simp: createPurchase_def executePurchaseTransaction_def transaction_def
                   isConflict_def split: if_splits)
      next
        case b: (Inr x)
        with assms c Inr r w show False
          by (auto simp: createPurchase_def executePurchaseTransaction_def transaction_def
                   split: if_splits prod.splits)
      qed
    qed
  qed
qed

subsection \<open>Profiles and equipment\<close>

lemma distinct_key_filter:
  "distinct (map f xs) \<Longrightarrow> x \<in> set xs \<Longrightarrow> filter (\<lambda>y. f y = f x) xs = [x]"
proof (induction xs)
  case Nil
  then show ?case by simp
next
  case (Cons a xs)
  show ?case
  proof (cases "a = x")
    case True
    with Cons.prems have "\<forall>y\<in>set xs. f y \<noteq> f x" by (auto simp: image_iff)
    then have "filter (\<lambda>y. f y = f x) xs = []" by (simp add: filter_empty_conv)
    with True show ?thesis by simp
  next
    case False
    with Cons.prems have "x \<in> set xs" "f a \<noteq> f x" by auto
    with Cons show ?thesis by simp
  qed
qed

text \<open>
  What \<open>activateCharacterProfile\<close> achieves when profile keys are unique: afterwards the
  partition of the activated profile has exactly one active profile, the activated one.
\<close>

lemma activateCharacterProfile_one_active:
  assumes pk: "distinct (map cp_id (tbl_characterProfile db))"
    and ok: "activateCharacterProfile userId profileId db = (Inr r, db')"
  shows "\<exists>profile\<in>set (tbl_characterProfile db).
           cp_id profile = profileId \<and> cp_userId profile = userId
           \<and> activeProfiles db' userId (cp_gameId profile) = [profile\<lparr>cp_isActive := True\<rparr>]"
proof -
  let ?P = "\<lambda>p. cp_id p = profileId \<and> cp_userId p = userId"
  from ok obtain profile where f: "find ?P (tbl_characterProfile db) = Some profile"
    by (auto simp: activateCharacterProfile_def split: option.splits)
  from find_Some_props [OF f] have mem: "profile \<in> set (tbl_characterProfile db)"
    and id: "cp_id profile = profileId" and u: "cp_userId profile = userId" by auto
  let ?g = "cp_gameId profile"
  let ?h = "\<lambda>p. if cp_id p = profileId then p\<lparr>cp_isActive := True\<rparr>
                 else if cp_userId p = userId \<and> cp_gameId p = ?g then p\<lparr>cp_isActive := False\<rparr>
                 else p"
  from ok f have db': "tbl_characterProfile db' = map ?h (tbl_characterProfile db)"
    by (auto simp: activateCharacterProfile_def transaction_def Let_def intro!: map_cong)
  have only: "\<And>p. p \<in> set (tbl_characterProfile db) \<Longrightarrow> cp_id p = profileId \<Longrightarrow> p = profile"
    using pk mem id by (metis distinct_map inj_onD)
  have "activeProfiles db' userId ?g
          = map ?h (filter (\<lambda>p. cp_id p = cp_id profile) (tbl_characterProfile db))"
    unfolding activeProfiles_def db' filter_map
    by (rule arg_cong [where f = "map ?h"], rule filter_cong) (auto simp: o_def id u dest: only)
  also have "\<dots> = [profile\<lparr>cp_isActive := True\<rparr>]"
    using distinct_key_filter [OF pk mem] id by simp
  finally show ?thesis using mem id u by blast
qed




subsection \<open>The purchase transaction\<close>

lemma allFound_Cons [simp]:
  "allFound sis (l # its) = (findStoreItem sis (pi_itemId l) \<noteq> None \<and> allFound sis its)"
  by (simp add: allFound_def)

lemma allFound_Nil [simp]: "allFound sis []"
  by (simp add: allFound_def)

lemma createPurchaseItems_ok:
  "allFound sis its \<Longrightarrow>
   createPurchaseItems pid its sis db
     = Inr (db\<lparr>tbl_purchaseItem := tbl_purchaseItem db @ map (newPurchaseItem pid sis) its\<rparr>)"
  by (induction its arbitrary: db) (auto simp: newPurchaseItem_def lineItem_def)

lemma createFulfillmentRecords_ok:
  "allFound sis its \<Longrightarrow>
   createFulfillmentRecords pid u now its sis db
     = Inr (db\<lparr>tbl_itemFulfillment := tbl_itemFulfillment db
               @ map (\<lambda>l. newFulfillment pid u now l (lineItem sis l)) its\<rparr>)"
  by (induction its arbitrary: db) (auto simp: lineItem_def)

lemma validateNonConsumableOwnership_allFound:
  "validateNonConsumableOwnership db u its sis = Inr x \<Longrightarrow> allFound sis its"
  by (induction its) (auto split: option.splits if_splits)

lemma addItemsToInventory_grant:
  "addItemsToInventory u its sis db
     = (case grantInventory u its sis (tbl_userInventory db) of
          Inl e \<Rightarrow> Inl e
        | Inr rows \<Rightarrow> Inr (db\<lparr>tbl_userInventory := rows\<rparr>))"
  by (induction its arbitrary: db)
     (auto simp: findInventory_def split: option.splits sum.splits)

lemma creditBy_0 [simp]: "creditBy u 0 w = w"
  by (simp add: creditBy_def)

lemma creditBy_creditBy [simp]: "creditBy u b (creditBy u a w) = creditBy u (a + b) w"
  by (simp add: creditBy_def)

lemma find_wallet_creditBy:
  "find (\<lambda>w. uw_userId w = u) (map (creditBy u d) ws)
     = map_option (creditBy u d) (find (\<lambda>w. uw_userId w = u) ws)"
  by (induction ws) (auto simp: creditBy_def)

lemma updateWalletBalance_eq:
  "updateWalletBalance db u d =
     (case find (\<lambda>w. uw_userId w = u) (tbl_userWallet db) of
        None \<Rightarrow> Inl InternalServerError
      | Some w \<Rightarrow> Inr (creditBy u d w, db\<lparr>tbl_userWallet := map (creditBy u d) (tbl_userWallet db)\<rparr>))"
  by (auto simp: updateWalletBalance_def creditBy_def fun_eq_iff split: option.splits
           dest: find_Some_props)

lemma processFunctionalItems_ok:
  "allFound sis its \<Longrightarrow> find (\<lambda>w. uw_userId w = u) (tbl_userWallet db) \<noteq> None \<Longrightarrow>
   processFunctionalItems u its sis wid db
     = Inr (db\<lparr>tbl_userWallet := map (creditBy u (totalCredit sis its)) (tbl_userWallet db),
              tbl_walletTransaction := tbl_walletTransaction db @ creditRows wid sis its\<rparr>)"
proof (induction its arbitrary: db)
  case Nil
  then show ?case by (simp add: totalCredit_def creditRows_def)
next
  case (Cons l its)
  from Cons.prems obtain s where s: "findStoreItem sis (pi_itemId l) = Some s" by auto
  from Cons.prems obtain w where w: "find (\<lambda>w. uw_userId w = u) (tbl_userWallet db) = Some w" by auto
  have rest: "allFound sis its" using Cons.prems by simp
  show ?case
  proof (cases "gemCredit s l")
    case None
    then have "processFunctionalItems u (l # its) sis wid db = processFunctionalItems u its sis wid db"
      using s by (auto simp: gemCredit_def split: option.splits if_splits)
    with None s Cons.IH [OF rest Cons.prems(2)] show ?thesis
      by (simp add: totalCredit_def creditRows_def lineItem_def)
  next
    case (Some c)
    then obtain g where g: "si_gemAmount s = Some g" "si_deliveryType s = FUNCTIONAL" "g \<noteq> 0"
        "si_instant s" "c = g * pi_quantity l"
      by (auto simp: gemCredit_def split: option.splits if_splits)
    let ?db1 = "db\<lparr>tbl_userWallet := map (creditBy u c) (tbl_userWallet db),
                   tbl_walletTransaction := tbl_walletTransaction db @
                     [\<lparr>wt_walletId = wid, wt_type = CREDIT, wt_amount = c,
                       wt_description = GemPack (si_name s) (pi_quantity l),
                       wt_referenceId = ''gem-pack-'' @ si_id s\<rparr>]\<rparr>"
    have step: "processFunctionalItems u (l # its) sis wid db = processFunctionalItems u its sis wid ?db1"
      using s g w by (simp add: updateWalletBalance_eq)
    have w1: "find (\<lambda>w. uw_userId w = u) (tbl_userWallet ?db1) \<noteq> None"
      using w by (simp add: find_wallet_creditBy)
    show ?thesis
      unfolding step Cons.IH [OF rest w1]
      using s Some by (simp add: totalCredit_def creditRows_def lineItem_def o_def add.commute)
  qed
qed

lemma find_append:
  "find P (xs @ ys) = (case find P xs of None \<Rightarrow> find P ys | Some x \<Rightarrow> Some x)"
  by (induction xs) auto

lemma getPurchaseWithDetails_committed:
  "\<exists>resp. getPurchaseWithDetails (committed u its sis tc now w rows db) (cuid (idCounter db))
            = Inr resp"
  by (auto simp: getPurchaseWithDetails_def committed_def find_append newPurchase_def
           split: option.splits)

lemma setReference_fold:
  "(\<lambda>t. if wt_walletId t = a \<and> wt_referenceId t = ''purchase-pending''
        then t\<lparr>wt_referenceId := p\<rparr> else t) = setReference a p"
  by (simp add: fun_eq_iff setReference_def)

lemma creditBy_comp [simp]: "creditBy u b \<circ> creditBy u a = creditBy u (a + b)"
  by (simp add: fun_eq_iff)

lemma purchaseTransactionBody_eq:
  "purchaseTransactionBody u its sis tc now db =
     (case validateNonConsumableOwnership db u its sis of
        Inl e \<Rightarrow> Inl e
      | Inr _ \<Rightarrow>
     (case find (\<lambda>w. uw_userId w = u) (tbl_userWallet db) of
        None \<Rightarrow> Inl InternalServerError
      | Some w \<Rightarrow>
          if uw_balance w < tc
          then Inl (BadRequestException InsufficientGemsForThisPurchase)
          else
     (case grantInventory u its sis (tbl_userInventory db) of
        Inl e \<Rightarrow> Inl e
      | Inr rows \<Rightarrow>
     (case getPurchaseWithDetails (committed u its sis tc now w rows db) (cuid (idCounter db)) of
        Inl e \<Rightarrow> Inl e
      | Inr resp \<Rightarrow> Inr (resp, committed u its sis tc now w rows db)))))"
proof (cases "validateNonConsumableOwnership db u its sis")
  case (Inl e)
  then show ?thesis by (simp add: purchaseTransactionBody_def)
next
  case (Inr x)
  then have af: "allFound sis its" by (rule validateNonConsumableOwnership_allFound)
  show ?thesis
  proof (cases "find (\<lambda>w. uw_userId w = u) (tbl_userWallet db)")
    case None
    with Inr show ?thesis by (simp add: purchaseTransactionBody_def updateWalletBalance_eq)
  next
    case (Some w)
    have wu: "uw_userId w = u" using find_Some_props [OF Some] by simp
    show ?thesis
    proof (cases "uw_balance w < tc")
      case True
      with Inr Some wu show ?thesis
        by (simp add: purchaseTransactionBody_def updateWalletBalance_eq creditBy_def)
    next
      case False
      show ?thesis
      proof (cases "grantInventory u its sis (tbl_userInventory db)")
        case (Inl e)
        with Inr Some False wu af show ?thesis
          by (simp add: purchaseTransactionBody_def updateWalletBalance_eq creditBy_def Let_def
                createPurchaseItems_ok addItemsToInventory_grant)
      next
        case g: (Inr rows)
        with Inr Some False wu af show ?thesis
          by (simp add: purchaseTransactionBody_def updateWalletBalance_eq creditBy_def [of u _ w]
                Let_def createPurchaseItems_ok addItemsToInventory_grant
                processFunctionalItems_ok find_wallet_creditBy createFulfillmentRecords_ok
                committed_def debitRow_def newPurchase_def setReference_fold
              cong: sum.case_cong)
      qed
    qed
  qed
qed

lemma itemsMap_Some: "itemsMap sis i = Some s \<Longrightarrow> s \<in> set sis \<and> si_id s = i"
  by (auto simp: itemsMap_def dest!: map_of_SomeD)

lemma findStoreItem_Some: "findStoreItem sis i = Some s \<Longrightarrow> s \<in> set sis \<and> si_id s = i"
  by (auto simp: findStoreItem_def dest: find_Some_props)

lemma findStoreItem_None: "(findStoreItem sis i = None) = (i \<notin> si_id ` set sis)"
  by (auto simp: findStoreItem_def find_None_conv)

lemma itemsMap_findStoreItem:
  "distinct (map si_id sis) \<Longrightarrow> itemsMap sis i = findStoreItem sis i"
proof (induction sis)
  case Nil
  then show ?case by (simp add: itemsMap_def findStoreItem_def)
next
  case (Cons a sis)
  then have IH: "map_of (rev (map (\<lambda>s. (si_id s, s)) sis)) i = find (\<lambda>s. si_id s = i) sis"
    by (simp add: itemsMap_def findStoreItem_def)
  show ?case
  proof (cases "si_id a = i")
    case True
    with Cons.prems have "i \<notin> si_id ` set sis" by auto
    then have "find (\<lambda>s. si_id s = i) sis = None" by (auto simp: find_None_conv)
    with True IH show ?thesis
      by (simp add: itemsMap_def findStoreItem_def map_add_def)
  next
    case False
    with IH show ?thesis
      by (simp add: itemsMap_def findStoreItem_def map_add_def split: option.splits)
  qed
qed

lemma validateLoop_Inr:
  "validateLoop sis its acc = Inr tc \<Longrightarrow>
     (\<forall>l\<in>set its. \<exists>s. itemsMap sis (pi_itemId l) = Some s
          \<and> 1 \<le> pi_quantity l \<and> pi_quantity l \<le> 100
          \<and> (si_type s = NON_CONSUMABLE \<longrightarrow> pi_quantity l = 1))
     \<and> tc = acc + (\<Sum>l\<leftarrow>its. si_price (the (itemsMap sis (pi_itemId l))) * pi_quantity l)"
proof (induction its arbitrary: acc)
  case Nil
  then show ?case by simp
next
  case (Cons l its)
  from Cons.prems obtain s where s: "itemsMap sis (pi_itemId l) = Some s"
    by (auto split: option.splits)
  with Cons.prems have q: "1 \<le> pi_quantity l" "pi_quantity l \<le> 100"
    "si_type s = NON_CONSUMABLE \<longrightarrow> pi_quantity l = 1"
    and rest: "validateLoop sis its (acc + si_price s * pi_quantity l) = Inr tc"
    by (auto split: if_splits)
  from Cons.IH [OF rest] s q show ?case by auto
qed

lemma validatePurchaseItems_Inr:
  assumes "validatePurchaseItems db its = Inr (sis, tc)"
  shows "its \<noteq> []"
    and "sis = filter (\<lambda>s. si_id s \<in> pi_itemId ` set its \<and> si_isActive s) (tbl_storeItem db)"
    and "length sis = length its"
    and "validateLoop sis its 0 = Inr tc"
  using assms
  by (auto simp: validatePurchaseItems_def Let_def split: if_splits sum.splits)

lemma validatePurchaseItems_allFound:
  assumes "validatePurchaseItems db its = Inr (sis, tc)"
  shows "allFound sis its"
proof -
  from validateLoop_Inr [OF validatePurchaseItems_Inr(4) [OF assms]]
  have "\<forall>l\<in>set its. \<exists>s. itemsMap sis (pi_itemId l) = Some s" by blast
  then have "\<forall>l\<in>set its. pi_itemId l \<in> si_id ` set sis"
    by (force dest: itemsMap_Some)
  then show ?thesis
    by (simp add: allFound_def list_all_iff findStoreItem_None)
qed

lemma validatePurchaseItems_distinct:
  assumes pk: "distinct (map si_id (tbl_storeItem db))"
    and v: "validatePurchaseItems db its = Inr (sis, tc)"
  shows "distinct (map si_id sis)" and "distinct (map pi_itemId its)"
proof -
  note f = validatePurchaseItems_Inr(2) [OF v]
  show d: "distinct (map si_id sis)"
    unfolding f using pk by (rule distinct_map_filter)
  have sub: "set (map si_id sis) \<subseteq> set (map pi_itemId its)"
    unfolding f by auto
  have "length its = length (map si_id sis)"
    using validatePurchaseItems_Inr(3) [OF v] by simp
  also have "\<dots> = card (set (map si_id sis))"
    using distinct_card [OF d] by simp
  also have "\<dots> \<le> card (set (map pi_itemId its))"
    using sub by (intro card_mono) auto
  finally have "length (map pi_itemId its) \<le> card (set (map pi_itemId its))" by simp
  moreover have "card (set (map pi_itemId its)) \<le> length (map pi_itemId its)"
    by (rule card_length)
  ultimately show "distinct (map pi_itemId its)"
    by (intro card_distinct) simp
qed

lemma validatePurchaseItems_total:
  assumes pk: "distinct (map si_id (tbl_storeItem db))"
    and v: "validatePurchaseItems db its = Inr (sis, tc)"
  shows "tc = (\<Sum>l\<leftarrow>its. si_price (lineItem sis l) * pi_quantity l)"
  using validateLoop_Inr [OF validatePurchaseItems_Inr(4) [OF v]]
        itemsMap_findStoreItem [OF validatePurchaseItems_distinct(1) [OF pk v]]
  by (simp add: lineItem_def)

lemma validateNonConsumableOwnership_Inr:
  "validateNonConsumableOwnership db u its sis = Inr x \<Longrightarrow>
     \<forall>l\<in>set its. si_type (lineItem sis l) = NON_CONSUMABLE \<longrightarrow> findInventory db u (pi_itemId l) = None"
  by (induction its) (auto simp: lineItem_def split: option.splits if_splits)

lemma validateNonConsumableOwnership_ok:
  "allFound sis its \<Longrightarrow>
   \<forall>l\<in>set its. si_type (lineItem sis l) = NON_CONSUMABLE \<longrightarrow> findInventory db u (pi_itemId l) = None \<Longrightarrow>
   validateNonConsumableOwnership db u its sis = Inr ()"
  by (induction its) (auto simp: lineItem_def split: option.splits if_splits)

lemma validateNonConsumableOwnership_owned:
  "allFound sis its \<Longrightarrow> l \<in> set its \<Longrightarrow> si_type (lineItem sis l) = NON_CONSUMABLE \<Longrightarrow>
   findInventory db u (pi_itemId l) \<noteq> None \<Longrightarrow>
   \<exists>name. validateNonConsumableOwnership db u its sis = Inl (BadRequestException (YouAlreadyOwn name))"
  by (induction its) (auto simp: lineItem_def split: option.splits if_splits)

lemma find_ownedRows:
  "(find (\<lambda>r. ui_userId r = u \<and> ui_itemId r = i) rows = None) = (ownedRows u i rows = [])"
  by (simp add: ownedRows_def find_None_conv filter_empty_conv)

lemma ownedRows_append [simp]: "ownedRows u i (xs @ ys) = ownedRows u i xs @ ownedRows u i ys"
  by (simp add: ownedRows_def)

lemma ownedRows_other_update:
  "j \<noteq> i \<Longrightarrow>
   ownedRows u i (map (\<lambda>r. if ui_userId r = u \<and> ui_itemId r = j
                            then r\<lparr>ui_quantity := ui_quantity r + q\<rparr> else r) rows)
     = ownedRows u i rows"
  by (induction rows) (auto simp: ownedRows_def)

lemma ownedRows_Nil [simp]: "ownedRows u i [] = []"
  by (simp add: ownedRows_def)

lemma ownedRows_Cons [simp]:
  "ownedRows u i (r # rows)
     = (if ui_userId r = u \<and> ui_itemId r = i then r # ownedRows u i rows else ownedRows u i rows)"
  by (simp add: ownedRows_def)

text \<open>A line leaves the rows of every other item as they are.\<close>

lemma grantInventory_step:
  "grantInventory u (a # its) sis rows = Inr rows' \<Longrightarrow>
   \<exists>rows1. grantInventory u its sis rows1 = Inr rows'
     \<and> (\<forall>i. i \<noteq> pi_itemId a \<longrightarrow> ownedRows u i rows1 = ownedRows u i rows)"
  by (auto simp: ownedRows_other_update split: option.splits if_splits)

lemma grantInventory_other:
  "grantInventory u its sis rows = Inr rows' \<Longrightarrow> i \<notin> pi_itemId ` set its \<Longrightarrow>
   ownedRows u i rows' = ownedRows u i rows"
proof (induction its arbitrary: rows)
  case Nil
  then show ?case by simp
next
  case (Cons l its)
  from Cons.prems(2) have ne: "i \<noteq> pi_itemId l" and rest: "i \<notin> pi_itemId ` set its" by auto
  from grantInventory_step [OF Cons.prems(1)] ne obtain rows1 where
    step: "grantInventory u its sis rows1 = Inr rows'" and
    same: "ownedRows u i rows1 = ownedRows u i rows"
    by blast
  from Cons.IH [OF step rest] same show ?case by simp
qed

text \<open>
  A committed grant of a non-consumable item that is not an instant functional item:
  there was no row for it, and afterwards there is exactly one, with quantity 1.
\<close>

lemma grantInventory_unique:
  "grantInventory u its sis rows = Inr rows' \<Longrightarrow> l \<in> set its \<Longrightarrow>
   si_type (lineItem sis l) = NON_CONSUMABLE \<Longrightarrow>
   \<not> (si_deliveryType (lineItem sis l) = FUNCTIONAL \<and> si_instant (lineItem sis l)) \<Longrightarrow>
   ownedRows u (pi_itemId l) rows = []
   \<and> ownedRows u (pi_itemId l) rows'
       = [\<lparr>ui_userId = u, ui_itemId = pi_itemId l, ui_quantity = 1, ui_isConsumed = False\<rparr>]"
proof (induction its arbitrary: rows l)
  case Nil
  then show ?case by simp
next
  case (Cons a its)
  let ?i = "pi_itemId l"
  let ?row = "\<lparr>ui_userId = u, ui_itemId = ?i, ui_quantity = 1, ui_isConsumed = False\<rparr>"
  from Cons.prems(1) obtain s where s: "findStoreItem sis (pi_itemId a) = Some s"
    by (auto split: option.splits)
  show ?case
  proof (cases "pi_itemId a = ?i")
    case True
    then have sl: "s = lineItem sis l" using s by (simp add: lineItem_def)
    from Cons.prems(1,3,4) s sl True have
      none: "ownedRows u ?i rows = []" and
      step: "grantInventory u its sis (rows @ [?row]) = Inr rows'"
      by (auto simp: find_ownedRows [symmetric] split: option.splits if_splits)
    have "?i \<notin> pi_itemId ` set its"
    proof
      assume "?i \<in> pi_itemId ` set its"
      then obtain l' where l': "l' \<in> set its" "pi_itemId l' = ?i" by auto
      then have "lineItem sis l' = lineItem sis l" by (simp add: lineItem_def)
      with Cons.IH [OF step l'(1)] Cons.prems(3,4) l'(2)
      have "ownedRows u ?i (rows @ [?row]) = []" by simp
      then show False by simp
    qed
    from grantInventory_other [OF step this] none show ?thesis
      by simp
  next
    case False
    with Cons.prems(2) have l: "l \<in> set its" by auto
    from grantInventory_step [OF Cons.prems(1)] False obtain rows1 where
      step: "grantInventory u its sis rows1 = Inr rows'" and
      same: "ownedRows u ?i rows1 = ownedRows u ?i rows"
      by metis
    from Cons.IH [OF step l Cons.prems(3,4)] same show ?thesis by simp
  qed
qed

text \<open>A grant goes through when the lines are distinct and no non-consumable is owned.\<close>

lemma grantInventory_ok:
  "allFound sis its \<Longrightarrow> distinct (map pi_itemId its) \<Longrightarrow>
   \<forall>l\<in>set its. si_type (lineItem sis l) = NON_CONSUMABLE \<longrightarrow> ownedRows u (pi_itemId l) rows = [] \<Longrightarrow>
   \<exists>rows'. grantInventory u its sis rows = Inr rows'"
proof (induction its arbitrary: rows)
  case Nil
  then show ?case by simp
next
  case (Cons a its)
  from Cons.prems(1) obtain s where s: "findStoreItem sis (pi_itemId a) = Some s" by auto
  have sa: "lineItem sis a = s" using s by (simp add: lineItem_def)
  have af: "allFound sis its" and d: "distinct (map pi_itemId its)"
    and na: "pi_itemId a \<notin> pi_itemId ` set its"
    using Cons.prems(1,2) by auto
  have keep: "\<And>rows1. (\<And>i. i \<noteq> pi_itemId a \<Longrightarrow> ownedRows u i rows1 = ownedRows u i rows) \<Longrightarrow>
                \<exists>rows'. grantInventory u its sis rows1 = Inr rows'"
  proof -
    fix rows1 assume same: "\<And>i. i \<noteq> pi_itemId a \<Longrightarrow> ownedRows u i rows1 = ownedRows u i rows"
    have "\<forall>l\<in>set its. si_type (lineItem sis l) = NON_CONSUMABLE \<longrightarrow> ownedRows u (pi_itemId l) rows1 = []"
      using Cons.prems(3) na same by (metis image_eqI list.set_intros(2))
    from Cons.IH [OF af d this] show "\<exists>rows'. grantInventory u its sis rows1 = Inr rows'" .
  qed
  show ?case
  proof (cases "si_deliveryType s = FUNCTIONAL \<and> si_instant s")
    case True
    with s keep [of rows] show ?thesis by simp
  next
    case nf: False
    show ?thesis
    proof (cases "si_type s")
      case CONSUMABLE
      show ?thesis
      proof (cases "find (\<lambda>r. ui_userId r = u \<and> ui_itemId r = pi_itemId a) rows")
        case None
        with s nf CONSUMABLE
          keep [of "rows @ [\<lparr>ui_userId = u, ui_itemId = pi_itemId a,
                             ui_quantity = pi_quantity a, ui_isConsumed = False\<rparr>]"]
        show ?thesis by auto
      next
        case (Some r)
        with s nf CONSUMABLE
          keep [of "map (\<lambda>r. if ui_userId r = u \<and> ui_itemId r = pi_itemId a
                              then r\<lparr>ui_quantity := ui_quantity r + pi_quantity a\<rparr> else r) rows"]
        show ?thesis by (auto simp: ownedRows_other_update)
      qed
    next
      case NON_CONSUMABLE
      with Cons.prems(3) sa have "find (\<lambda>r. ui_userId r = u \<and> ui_itemId r = pi_itemId a) rows = None"
        by (simp add: find_ownedRows)
      with s nf NON_CONSUMABLE
        keep [of "rows @ [\<lparr>ui_userId = u, ui_itemId = pi_itemId a,
                           ui_quantity = 1, ui_isConsumed = False\<rparr>]"]
      show ?thesis by auto
    qed
  qed
qed

lemma suppressed_check:
  "suppressed db now u dto =
     (truthy (dto_idempotencyKey dto)
      \<and> checkDuplicatePurchase db now u (the (dto_idempotencyKey dto)) \<noteq> None)"
  by (auto simp: suppressed_def checkDuplicatePurchase_def find_None_conv list_ex_iff)

lemma createPurchase_Inl_unchanged:
  "createPurchase u dto now db = (Inl e, db') \<Longrightarrow> db' = db"
  by (auto simp: createPurchase_def executePurchaseTransaction_def transaction_def
           split: if_splits sum.splits prod.splits)

lemma createPurchase_Inr:
  assumes "createPurchase u dto now db = (Inr resp, db')"
  shows "\<exists>sis tc w rows.
           \<not> suppressed db now u dto
           \<and> validatePurchaseItems db (dto_items dto) = Inr (sis, tc)
           \<and> find (\<lambda>w. uw_userId w = u) (tbl_userWallet db) = Some w
           \<and> tc \<le> uw_balance w
           \<and> validateNonConsumableOwnership db u (dto_items dto) sis = Inr ()
           \<and> grantInventory u (dto_items dto) sis (tbl_userInventory db) = Inr rows
           \<and> db' = committed u (dto_items dto) sis tc now w rows db"
  using assms
  by (auto simp: createPurchase_def executePurchaseTransaction_def transaction_def
                 suppressed_check getUserWallet_def purchaseTransactionBody_eq
           split: if_splits sum.splits prod.splits option.splits)

lemma createPurchase_ok:
  assumes "\<not> suppressed db now u dto"
    and "validatePurchaseItems db (dto_items dto) = Inr (sis, tc)"
    and "find (\<lambda>w. uw_userId w = u) (tbl_userWallet db) = Some w"
    and "tc \<le> uw_balance w"
    and "validateNonConsumableOwnership db u (dto_items dto) sis = Inr ()"
    and "grantInventory u (dto_items dto) sis (tbl_userInventory db) = Inr rows"
  shows "\<exists>resp. createPurchase u dto now db
           = (Inr resp, committed u (dto_items dto) sis tc now w rows db)"
  using assms getPurchaseWithDetails_committed [of u "dto_items dto" sis tc now w rows db]
  by (auto simp: createPurchase_def executePurchaseTransaction_def transaction_def
                 suppressed_check getUserWallet_def purchaseTransactionBody_eq)

lemma lineItem_catalog:
  assumes v: "validatePurchaseItems db its = Inr (sis, tc)" and l: "l \<in> set its"
  shows "lineItem sis l \<in> set (tbl_storeItem db) \<and> si_id (lineItem sis l) = pi_itemId l
         \<and> si_isActive (lineItem sis l)"
proof -
  from validatePurchaseItems_allFound [OF v] l
  obtain s where s: "findStoreItem sis (pi_itemId l) = Some s"
    by (auto simp: allFound_def list_all_iff)
  from findStoreItem_Some [OF s] validatePurchaseItems_Inr(2) [OF v] s show ?thesis
    by (auto simp: lineItem_def)
qed

lemma setReference_type [simp]: "wt_type (setReference a p t) = wt_type t"
  by (simp add: setReference_def)

lemma setReference_amount [simp]: "wt_amount (setReference a p t) = wt_amount t"
  by (simp add: setReference_def)

lemma creditRows_credits:
  "map (\<lambda>t. (wt_type t, wt_amount t)) (creditRows wid sis its) = map (Pair CREDIT) (credits sis its)"
  by (induction its) (auto simp: creditRows_def credits_def List.map_filter_simps split: option.splits)

lemma totalCredit_credits: "totalCredit sis its = sum_list (credits sis its)"
  by (induction its) (auto simp: totalCredit_def credits_def List.map_filter_simps split: option.splits)

lemma find_wallet_committed:
  "find (\<lambda>w. uw_userId w = u) (tbl_userWallet db) = Some w \<Longrightarrow>
   find (\<lambda>w. uw_userId w = u) (tbl_userWallet (committed u its sis tc now w rows db))
     = Some (w\<lparr>uw_balance := uw_balance w - tc + totalCredit sis its\<rparr>)"
  by (auto simp: committed_def find_wallet_creditBy creditBy_def dest: find_Some_props)

lemma validateLoop_nonneg:
  "validateLoop sis its acc = Inr tc \<Longrightarrow> \<forall>s\<in>set sis. 0 \<le> si_price s \<Longrightarrow> acc \<le> tc"
proof (induction its arbitrary: acc)
  case Nil
  then show ?case by simp
next
  case (Cons l its)
  from Cons.prems(1) obtain s where s: "itemsMap sis (pi_itemId l) = Some s"
    by (auto split: option.splits)
  with Cons.prems(1) have q: "1 \<le> pi_quantity l"
    and rest: "validateLoop sis its (acc + si_price s * pi_quantity l) = Inr tc"
    by (auto split: if_splits)
  from itemsMap_Some [OF s] Cons.prems(2) have "0 \<le> si_price s" by blast
  with q have "0 \<le> si_price s * pi_quantity l" by simp
  with Cons.IH [OF rest Cons.prems(2)] show ?case by linarith
qed

lemma credits_positive:
  assumes v: "validatePurchaseItems db its = Inr (sis, tc)"
    and gems: "\<forall>s\<in>set (tbl_storeItem db). \<forall>g. si_gemAmount s = Some g \<longrightarrow> 0 \<le> g"
  shows "\<forall>c\<in>set (credits sis its). 0 < c"
proof
  fix c assume "c \<in> set (credits sis its)"
  then obtain l where l: "l \<in> set its" and c: "gemCredit (lineItem sis l) l = Some c"
    by (auto simp: credits_def List.map_filter_def)
  from c obtain g where g: "si_gemAmount (lineItem sis l) = Some g" "g \<noteq> 0" "c = g * pi_quantity l"
    by (auto simp: gemCredit_def split: option.splits if_splits)
  from lineItem_catalog [OF v l] gems g have "0 < g" by force
  moreover from validateLoop_Inr [OF validatePurchaseItems_Inr(4) [OF v]] l
  have "1 \<le> pi_quantity l" by blast
  ultimately show "0 < c" using g by simp
qed

subsection \<open>Retrying fulfillments\<close>

text \<open>
  What \<open>retryPurchase\<close> does. It throws \<open>NotFoundException\<close> when the user has no
  COMPLETED purchase with the given key (an unknown purchase, a purchase of another user,
  or one that is not COMPLETED), and \<open>BadRequestException\<close> when that purchase has no
  FAILED fulfillment; in both cases nothing is written. Otherwise every FAILED
  fulfillment of the purchase gets status RETRY, one more attempt and \<open>lastAttempt = now\<close>,
  every other fulfillment and every other table stay as they are, and the number of
  retried rows is returned.
\<close>

lemma retryPurchase_outcomes:
  "((\<forall>p\<in>set (tbl_purchase db).
        \<not> (pu_id p = purchaseId \<and> pu_userId p = userId \<and> pu_status p = PurchaseCOMPLETED))
      \<longrightarrow> retryPurchase userId purchaseId now db
            = (Inl (NotFoundException PurchaseNotFoundOrCannotBeRetried), db))
   \<and> ((\<exists>p\<in>set (tbl_purchase db).
          pu_id p = purchaseId \<and> pu_userId p = userId \<and> pu_status p = PurchaseCOMPLETED)
      \<longrightarrow> ((\<forall>f\<in>set (tbl_itemFulfillment db). \<not> (if_purchaseId f = purchaseId \<and> if_status f = FAILED))
             \<longrightarrow> retryPurchase userId purchaseId now db
                   = (Inl (BadRequestException NoFailedFulfillmentsToRetry), db))
        \<and> ((\<exists>f\<in>set (tbl_itemFulfillment db). if_purchaseId f = purchaseId \<and> if_status f = FAILED)
             \<longrightarrow> fst (retryPurchase userId purchaseId now db)
                   = Inr (length (filter (\<lambda>f. if_purchaseId f = purchaseId \<and> if_status f = FAILED)
                                    (tbl_itemFulfillment db)))
               \<and> snd (retryPurchase userId purchaseId now db)
                   = db\<lparr>tbl_itemFulfillment :=
                         tbl_itemFulfillment (snd (retryPurchase userId purchaseId now db))\<rparr>
               \<and> length (tbl_itemFulfillment (snd (retryPurchase userId purchaseId now db)))
                   = length (tbl_itemFulfillment db)
               \<and> (\<forall>k < length (tbl_itemFulfillment db).
                     tbl_itemFulfillment (snd (retryPurchase userId purchaseId now db)) ! k
                       = (if if_purchaseId (tbl_itemFulfillment db ! k) = purchaseId
                             \<and> if_status (tbl_itemFulfillment db ! k) = FAILED
                          then retried now (tbl_itemFulfillment db ! k)
                          else tbl_itemFulfillment db ! k))))"
proof (cases "find (\<lambda>p. pu_id p = purchaseId \<and> pu_userId p = userId \<and> pu_status p = PurchaseCOMPLETED)
                (tbl_purchase db)")
  case None
  then have "\<forall>p\<in>set (tbl_purchase db).
        \<not> (pu_id p = purchaseId \<and> pu_userId p = userId \<and> pu_status p = PurchaseCOMPLETED)"
    by (simp add: find_None_conv)
  with None show ?thesis
    by (auto simp: retryPurchase_def)
next
  case (Some p)
  then have p: "pu_id p = purchaseId" and ex: "\<exists>p\<in>set (tbl_purchase db).
          pu_id p = purchaseId \<and> pu_userId p = userId \<and> pu_status p = PurchaseCOMPLETED"
    using find_Some_props [OF Some] by auto
  show ?thesis
  proof (cases "\<exists>f\<in>set (tbl_itemFulfillment db). if_purchaseId f = purchaseId \<and> if_status f = FAILED")
    case True
    then have "filter (\<lambda>f. if_purchaseId f = purchaseId \<and> if_status f = FAILED)
                 (tbl_itemFulfillment db) \<noteq> []"
      by (simp add: filter_empty_conv)
    with Some p ex True show ?thesis
      by (auto simp: retryPurchase_def retried_def)
  next
    case False
    then have "filter (\<lambda>f. if_purchaseId f = purchaseId \<and> if_status f = FAILED)
                 (tbl_itemFulfillment db) = []"
      by (simp add: filter_empty_conv)
    with Some p ex False show ?thesis
      by (auto simp: retryPurchase_def)
  qed
qed

lemma retryPurchase_outcomes_demo:
  "fst (retryPurchase ''u1'' ''o1'' 5000 retryDB) = Inr 1
   \<and> map if_status (tbl_itemFulfillment (snd (retryPurchase ''u1'' ''o1'' 5000 retryDB)))
       = [RETRY, COMPLETED, FAILED, PENDING]
   \<and> map if_attempts (tbl_itemFulfillment (snd (retryPurchase ''u1'' ''o1'' 5000 retryDB)))
       = [2, 0, 2, 0]
   \<and> retryPurchase ''u1'' ''o3'' 5000 retryDB
       = (Inl (BadRequestException NoFailedFulfillmentsToRetry), retryDB)
   \<and> retryPurchase ''u1'' ''o2'' 5000 retryDB
       = (Inl (NotFoundException PurchaseNotFoundOrCannotBeRetried), retryDB)"
proof -
  have o1: "\<exists>p\<in>set (tbl_purchase retryDB).
              pu_id p = ''o1'' \<and> pu_userId p = ''u1'' \<and> pu_status p = PurchaseCOMPLETED"
    by code_simp
  have f1: "\<exists>f\<in>set (tbl_itemFulfillment retryDB). if_purchaseId f = ''o1'' \<and> if_status f = FAILED"
    by code_simp
  have o3: "\<exists>p\<in>set (tbl_purchase retryDB).
              pu_id p = ''o3'' \<and> pu_userId p = ''u1'' \<and> pu_status p = PurchaseCOMPLETED"
    by code_simp
  have f3: "\<forall>f\<in>set (tbl_itemFulfillment retryDB). \<not> (if_purchaseId f = ''o3'' \<and> if_status f = FAILED)"
    by code_simp
  have o2: "\<forall>p\<in>set (tbl_purchase retryDB).
              \<not> (pu_id p = ''o2'' \<and> pu_userId p = ''u1'' \<and> pu_status p = PurchaseCOMPLETED)"
    by code_simp
  have n: "length (filter (\<lambda>f. if_purchaseId f = ''o1'' \<and> if_status f = FAILED)
                     (tbl_itemFulfillment retryDB)) = 1"
    by code_simp
  have a: "fst (retryPurchase ''u1'' ''o1'' 5000 retryDB) = Inr 1"
    using retryPurchase_outcomes [of retryDB "''o1''" "''u1''" 5000] o1 f1 n by simp
  have b: "retryPurchase ''u1'' ''o3'' 5000 retryDB
             = (Inl (BadRequestException NoFailedFulfillmentsToRetry), retryDB)"
    using retryPurchase_outcomes [of retryDB "''o3''" "''u1''" 5000] o3 f3 by simp
  have c: "retryPurchase ''u1'' ''o2'' 5000 retryDB
             = (Inl (NotFoundException PurchaseNotFoundOrCannotBeRetried), retryDB)"
    using retryPurchase_outcomes [of retryDB "''o2''" "''u1''" 5000] o2 by simp
  have d: "map if_status (tbl_itemFulfillment (snd (retryPurchase ''u1'' ''o1'' 5000 retryDB)))
             = [RETRY, COMPLETED, FAILED, PENDING]"
    by code_simp
  have e: "map if_attempts (tbl_itemFulfillment (snd (retryPurchase ''u1'' ''o1'' 5000 retryDB)))
             = [2, 0, 2, 0]"
    by code_simp
  from a b c d e show ?thesis by simp
qed

section \<open>The claims\<close>

text \<open>
  C1, as amended. Take a purchase request that the duplicate check does not stop, whose
  lines pass \<open>validatePurchaseItems\<close> (distinct active items, quantities from 1 to 100,
  quantity 1 for non-consumables), whose non-consumable items the user does not own yet,
  and whose total is at most the balance of the wallet; store item keys are unique. Then
  \<open>createPurchase\<close> commits. The total is the sum of price times quantity over the
  lines. The wallet is debited once by the total: one DEBIT row of that amount is
  written, followed by one CREDIT row for each instant gem pack line, and the new balance
  is the old one minus the total plus those credits (so exactly the old one minus the
  total when no line is an instant gem pack). Exactly one purchase row is written,
  COMPLETED and with the total as its amount, one purchase item per line and one
  fulfillment per line.
\<close>

theorem createPurchase_commits:
  assumes pk: "distinct (map si_id (tbl_storeItem db))"
    and fresh: "\<not> suppressed db now userId dto"
    and valid: "validatePurchaseItems db (dto_items dto) = Inr (storeItems, totalCost)"
    and wallet: "find (\<lambda>w. uw_userId w = userId) (tbl_userWallet db) = Some wallet"
    and afford: "totalCost \<le> uw_balance wallet"
    and unowned: "\<forall>l\<in>set (dto_items dto). si_type (lineItem storeItems l) = NON_CONSUMABLE
                    \<longrightarrow> findInventory db userId (pi_itemId l) = None"
  shows "\<exists>response db'.
      createPurchase userId dto now db = (Inr response, db')
    \<and> totalCost = (\<Sum>l\<leftarrow>dto_items dto. si_price (lineItem storeItems l) * pi_quantity l)
    \<and> find (\<lambda>w. uw_userId w = userId) (tbl_userWallet db')
        = Some (wallet\<lparr>uw_balance := uw_balance wallet - totalCost
                                         + sum_list (credits storeItems (dto_items dto))\<rparr>)
    \<and> map (\<lambda>t. (wt_type t, wt_amount t)) (tbl_walletTransaction db')
        = map (\<lambda>t. (wt_type t, wt_amount t)) (tbl_walletTransaction db)
          @ (DEBIT, totalCost) # map (Pair CREDIT) (credits storeItems (dto_items dto))
    \<and> tbl_purchase db'
        = tbl_purchase db
          @ [\<lparr>pu_id = cuid (idCounter db), pu_userId = userId, pu_totalAmount = totalCost,
              pu_status = PurchaseCOMPLETED, pu_paymentMethod = ''GEMS'', pu_createdAt = now\<rparr>]
    \<and> tbl_purchaseItem db'
        = tbl_purchaseItem db
          @ map (newPurchaseItem (cuid (idCounter db)) storeItems) (dto_items dto)
    \<and> tbl_itemFulfillment db'
        = tbl_itemFulfillment db
          @ map (\<lambda>l. newFulfillment (cuid (idCounter db)) userId now l (lineItem storeItems l))
              (dto_items dto)"
proof -
  let ?its = "dto_items dto"
  have af: "allFound storeItems ?its" by (rule validatePurchaseItems_allFound [OF valid])
  have nco: "validateNonConsumableOwnership db userId ?its storeItems = Inr ()"
    using af unowned by (rule validateNonConsumableOwnership_ok)
  have "\<forall>l\<in>set ?its. si_type (lineItem storeItems l) = NON_CONSUMABLE
          \<longrightarrow> ownedRows userId (pi_itemId l) (tbl_userInventory db) = []"
    using unowned by (simp add: findInventory_def find_ownedRows)
  with af validatePurchaseItems_distinct(2) [OF pk valid]
  obtain rows where rows: "grantInventory userId ?its storeItems (tbl_userInventory db) = Inr rows"
    using grantInventory_ok by blast
  from createPurchase_ok [OF fresh valid wallet afford nco rows]
  obtain response where r: "createPurchase userId dto now db
      = (Inr response, committed userId ?its storeItems totalCost now wallet rows db)" ..
  have tot: "totalCost = (\<Sum>l\<leftarrow>?its. si_price (lineItem storeItems l) * pi_quantity l)"
    by (rule validatePurchaseItems_total [OF pk valid])
  have w: "find (\<lambda>w. uw_userId w = userId)
             (tbl_userWallet (committed userId ?its storeItems totalCost now wallet rows db))
           = Some (wallet\<lparr>uw_balance := uw_balance wallet - totalCost
                                            + sum_list (credits storeItems ?its)\<rparr>)"
    using find_wallet_committed [OF wallet] by (simp add: totalCredit_credits)
  have t: "map (\<lambda>t. (wt_type t, wt_amount t))
             (tbl_walletTransaction (committed userId ?its storeItems totalCost now wallet rows db))
           = map (\<lambda>t. (wt_type t, wt_amount t)) (tbl_walletTransaction db)
             @ (DEBIT, totalCost) # map (Pair CREDIT) (credits storeItems ?its)"
    using creditRows_credits [of "uw_id wallet" storeItems ?its]
    by (simp add: committed_def o_def debitRow_def)
  show ?thesis
    using r tot w t by (auto simp: committed_def newPurchase_def)
qed

theorem createPurchase_commits_witness:
  "distinct (map si_id (tbl_storeItem scenarioDB))
   \<and> \<not> suppressed scenarioDB 900000 ''u1'' (request [(''xp'', 2)] None)
   \<and> validatePurchaseItems scenarioDB (dto_items (request [(''xp'', 2)] None)) = Inr ([xpToken], 1000)
   \<and> find (\<lambda>w. uw_userId w = ''u1'') (tbl_userWallet scenarioDB)
       = Some \<lparr>uw_id = ''w1'', uw_userId = ''u1'', uw_balance = 1000\<rparr>
   \<and> (\<exists>response db'.
         createPurchase ''u1'' (request [(''xp'', 2)] None) 900000 scenarioDB = (Inr response, db')
       \<and> find (\<lambda>w. uw_userId w = ''u1'') (tbl_userWallet db')
           = Some \<lparr>uw_id = ''w1'', uw_userId = ''u1'', uw_balance = 0\<rparr>
       \<and> map (\<lambda>t. (wt_type t, wt_amount t)) (tbl_walletTransaction db')
           = [(CREDIT, 5000), (DEBIT, 500), (DEBIT, 1000)]
       \<and> map pu_totalAmount (tbl_purchase db') = [800, 1000]
       \<and> map pu_status (tbl_purchase db') = [PurchaseCOMPLETED, PurchaseCOMPLETED]
       \<and> length (tbl_purchaseItem db') = 2
       \<and> length (tbl_itemFulfillment db') = 1
       \<and> map if_status (tbl_itemFulfillment db') = [COMPLETED]
       \<and> map ui_quantity (tbl_userInventory db') = [2])"
proof -
  let ?dto = "request [(''xp'', 2)] None"
  let ?w = "\<lparr>uw_id = ''w1'', uw_userId = ''u1'', uw_balance = 1000\<rparr>"
  let ?D = "snd (createPurchase ''u1'' ?dto 900000 scenarioDB)"
  have pk: "distinct (map si_id (tbl_storeItem scenarioDB))"
    by code_simp
  have fresh: "\<not> suppressed scenarioDB 900000 ''u1'' ?dto"
    by code_simp
  have valid: "validatePurchaseItems scenarioDB (dto_items ?dto) = Inr ([xpToken], 1000)"
    by code_simp
  have wallet: "find (\<lambda>w. uw_userId w = ''u1'') (tbl_userWallet scenarioDB) = Some ?w"
    by code_simp
  have afford: "1000 \<le> uw_balance ?w"
    by simp
  have unowned: "\<forall>l\<in>set (dto_items ?dto). si_type (lineItem [xpToken] l) = NON_CONSUMABLE
                   \<longrightarrow> findInventory scenarioDB ''u1'' (pi_itemId l) = None"
    by code_simp
  have c: "credits [xpToken] (dto_items ?dto) = []"
    by code_simp
  have old: "map (\<lambda>t. (wt_type t, wt_amount t)) (tbl_walletTransaction scenarioDB)
               = [(CREDIT, 5000), (DEBIT, 500)]"
    by code_simp
  have p: "map pu_totalAmount (tbl_purchase scenarioDB) = [800]"
    "map pu_status (tbl_purchase scenarioDB) = [PurchaseCOMPLETED]"
    "length (tbl_purchaseItem scenarioDB) = 1" "length (tbl_itemFulfillment scenarioDB) = 0"
    "length (dto_items ?dto) = 1"
    by code_simp+
  have extra: "map if_status (tbl_itemFulfillment ?D) = [COMPLETED]"
    "map ui_quantity (tbl_userInventory ?D) = [2]"
    by code_simp+
  from createPurchase_commits [OF pk fresh valid wallet afford unowned]
  obtain response db' where
    r: "createPurchase ''u1'' ?dto 900000 scenarioDB = (Inr response, db')" and
    rest: "find (\<lambda>w. uw_userId w = ''u1'') (tbl_userWallet db')
             = Some (?w\<lparr>uw_balance := uw_balance ?w - 1000 + sum_list (credits [xpToken] (dto_items ?dto))\<rparr>)"
      "map (\<lambda>t. (wt_type t, wt_amount t)) (tbl_walletTransaction db')
         = map (\<lambda>t. (wt_type t, wt_amount t)) (tbl_walletTransaction scenarioDB)
           @ (DEBIT, 1000) # map (Pair CREDIT) (credits [xpToken] (dto_items ?dto))"
      "tbl_purchase db'
         = tbl_purchase scenarioDB
           @ [\<lparr>pu_id = cuid (idCounter scenarioDB), pu_userId = ''u1'', pu_totalAmount = 1000,
               pu_status = PurchaseCOMPLETED, pu_paymentMethod = ''GEMS'', pu_createdAt = 900000\<rparr>]"
      "tbl_purchaseItem db'
         = tbl_purchaseItem scenarioDB
           @ map (newPurchaseItem (cuid (idCounter scenarioDB)) [xpToken]) (dto_items ?dto)"
      "tbl_itemFulfillment db'
         = tbl_itemFulfillment scenarioDB
           @ map (\<lambda>l. newFulfillment (cuid (idCounter scenarioDB)) ''u1'' 900000 l (lineItem [xpToken] l))
               (dto_items ?dto)"
    by blast
  from r have D: "?D = db'" by simp
  from r rest c old p extra [unfolded D] have
    "createPurchase ''u1'' ?dto 900000 scenarioDB = (Inr response, db')
       \<and> find (\<lambda>w. uw_userId w = ''u1'') (tbl_userWallet db')
           = Some \<lparr>uw_id = ''w1'', uw_userId = ''u1'', uw_balance = 0\<rparr>
       \<and> map (\<lambda>t. (wt_type t, wt_amount t)) (tbl_walletTransaction db')
           = [(CREDIT, 5000), (DEBIT, 500), (DEBIT, 1000)]
       \<and> map pu_totalAmount (tbl_purchase db') = [800, 1000]
       \<and> map pu_status (tbl_purchase db') = [PurchaseCOMPLETED, PurchaseCOMPLETED]
       \<and> length (tbl_purchaseItem db') = 2
       \<and> length (tbl_itemFulfillment db') = 1
       \<and> map if_status (tbl_itemFulfillment db') = [COMPLETED]
       \<and> map ui_quantity (tbl_userInventory db') = [2]"
    by simp
  then have "\<exists>response db'.
         createPurchase ''u1'' ?dto 900000 scenarioDB = (Inr response, db')
       \<and> find (\<lambda>w. uw_userId w = ''u1'') (tbl_userWallet db')
           = Some \<lparr>uw_id = ''w1'', uw_userId = ''u1'', uw_balance = 0\<rparr>
       \<and> map (\<lambda>t. (wt_type t, wt_amount t)) (tbl_walletTransaction db')
           = [(CREDIT, 5000), (DEBIT, 500), (DEBIT, 1000)]
       \<and> map pu_totalAmount (tbl_purchase db') = [800, 1000]
       \<and> map pu_status (tbl_purchase db') = [PurchaseCOMPLETED, PurchaseCOMPLETED]
       \<and> length (tbl_purchaseItem db') = 2
       \<and> length (tbl_itemFulfillment db') = 1
       \<and> map if_status (tbl_itemFulfillment db') = [COMPLETED]
       \<and> map ui_quantity (tbl_userInventory db') = [2]"
    by (intro exI)
  with pk fresh valid wallet show ?thesis
    by (intro conjI)
qed

text \<open>
  C1 as stated fails. The free gem pack of the demo store is a valid item and its total,
  0, is within the balance of 4500. With an idempotency key, one second after the demo
  purchase, the request is rejected by the duplicate check and nothing is written.
  Without a key the purchase commits, and the balance goes from 4500 to 5500, not to
  4500 minus the total.
\<close>

theorem createPurchase_commits_counterexample:
  "validatePurchaseItems demoDB (dto_items (request [(''gems'', 1)] (Some ''k1''))) = Inr ([gemPack], 0)
   \<and> map uw_balance (tbl_userWallet demoDB) = [4500]
   \<and> createPurchase ''u1'' (request [(''gems'', 1)] (Some ''k1'')) 1000 demoDB
       = (Inl (ConflictException DuplicatePurchaseDetected), demoDB)
   \<and> map uw_balance (tbl_userWallet (snd (createPurchase ''u1'' (request [(''gems'', 1)] None) 1000 demoDB)))
       = [5500]"
  by code_simp

text \<open>
  C2, as amended. When the lines of a request validate to a total that exceeds the
  balance of the wallet, \<open>createPurchase\<close> writes nothing at all: the store it returns
  is the store it was given. It throws \<open>BadRequestException\<close> with the message that
  carries the required total and the available balance, unless the duplicate check comes
  first and throws \<open>ConflictException\<close>.
\<close>

theorem createPurchase_insufficient:
  assumes valid: "validatePurchaseItems db (dto_items dto) = Inr (storeItems, totalCost)"
    and wallet: "find (\<lambda>w. uw_userId w = userId) (tbl_userWallet db) = Some wallet"
    and short: "uw_balance wallet < totalCost"
  shows "snd (createPurchase userId dto now db) = db
     \<and> fst (createPurchase userId dto now db)
         = (if suppressed db now userId dto
            then Inl (ConflictException DuplicatePurchaseDetected)
            else Inl (BadRequestException (InsufficientGems totalCost (uw_balance wallet))))"
  using assms
  by (simp add: createPurchase_def suppressed_check getUserWallet_def)

theorem createPurchase_insufficient_witness:
  "validatePurchaseItems demoDB (dto_items (request [(''ak'', 1), (''ghost'', 1), (''shirt'', 1)] None))
     = Inr ([akSkin, ghostSkin, tShirt], 5800)
   \<and> find (\<lambda>w. uw_userId w = ''u1'') (tbl_userWallet demoDB)
       = Some \<lparr>uw_id = ''w1'', uw_userId = ''u1'', uw_balance = 4500\<rparr>
   \<and> createPurchase ''u1'' (request [(''ak'', 1), (''ghost'', 1), (''shirt'', 1)] None) 1000 demoDB
       = (Inl (BadRequestException (InsufficientGems 5800 4500)), demoDB)"
proof -
  let ?dto = "request [(''ak'', 1), (''ghost'', 1), (''shirt'', 1)] None"
  let ?w = "\<lparr>uw_id = ''w1'', uw_userId = ''u1'', uw_balance = 4500\<rparr>"
  have valid: "validatePurchaseItems demoDB (dto_items ?dto) = Inr ([akSkin, ghostSkin, tShirt], 5800)"
    by code_simp
  have wallet: "find (\<lambda>w. uw_userId w = ''u1'') (tbl_userWallet demoDB) = Some ?w"
    by code_simp
  have short: "uw_balance ?w < 5800"
    by simp
  have fresh: "\<not> suppressed demoDB 1000 ''u1'' ?dto"
    by code_simp
  from createPurchase_insufficient [OF valid wallet short, of 1000] fresh valid wallet
  show ?thesis by (simp add: prod_eq_iff)
qed

text \<open>
  C2 as stated fails. The two skins and the T-shirt cost 5800, more than the 4500 of the
  demo wallet; with an idempotency key, one second after the demo purchase, the error is
  \<open>ConflictException\<close>, not the insufficient-funds error.
\<close>

theorem createPurchase_insufficient_counterexample:
  "validatePurchaseItems demoDB
       (dto_items (request [(''ak'', 1), (''ghost'', 1), (''shirt'', 1)] (Some ''k1'')))
     = Inr ([akSkin, ghostSkin, tShirt], 5800)
   \<and> map uw_balance (tbl_userWallet demoDB) = [4500]
   \<and> createPurchase ''u1'' (request [(''ak'', 1), (''ghost'', 1), (''shirt'', 1)] (Some ''k1'')) 1000 demoDB
       = (Inl (ConflictException DuplicatePurchaseDetected), demoDB)"
  by code_simp

text \<open>
  C3, as amended. Let a line of the request name a non-consumable item. If the user has
  an inventory row for it, \<open>createPurchase\<close> is rejected and returns the store
  unchanged; when the request passes the duplicate check, the validation and the balance
  check, the error is \<open>BadRequestException\<close> (You already own ...), not
  \<open>ConflictException\<close>. If the purchase commits and the item is not an instant
  functional item (for which no inventory row is written), the user had no row for it
  before and has exactly one afterwards, with quantity 1.
\<close>

theorem createPurchase_unique_item:
  assumes line: "l \<in> set (dto_items dto)"
    and unique: "\<forall>s\<in>set (tbl_storeItem db). si_id s = pi_itemId l \<longrightarrow> si_type s = NON_CONSUMABLE"
  shows "(findInventory db userId (pi_itemId l) \<noteq> None \<longrightarrow>
            (\<exists>e. createPurchase userId dto now db = (Inl e, db))
          \<and> (\<not> suppressed db now userId dto
              \<and> validatePurchaseItems db (dto_items dto) = Inr (storeItems, totalCost)
              \<and> find (\<lambda>w. uw_userId w = userId) (tbl_userWallet db) = Some wallet
              \<and> totalCost \<le> uw_balance wallet
             \<longrightarrow> (\<exists>name. createPurchase userId dto now db
                            = (Inl (BadRequestException (YouAlreadyOwn name)), db))))
       \<and> (createPurchase userId dto now db = (Inr response, db')
          \<and> (\<forall>s\<in>set (tbl_storeItem db). si_id s = pi_itemId l
                 \<longrightarrow> \<not> (si_deliveryType s = FUNCTIONAL \<and> si_instant s))
         \<longrightarrow> ownedRows userId (pi_itemId l) (tbl_userInventory db) = []
           \<and> ownedRows userId (pi_itemId l) (tbl_userInventory db')
               = [\<lparr>ui_userId = userId, ui_itemId = pi_itemId l, ui_quantity = 1,
                   ui_isConsumed = False\<rparr>])"
proof (intro conjI impI)
  assume owned: "findInventory db userId (pi_itemId l) \<noteq> None"
  show "\<exists>e. createPurchase userId dto now db = (Inl e, db)"
  proof (cases "createPurchase userId dto now db")
    case (Pair res db1)
    show ?thesis
    proof (cases res)
      case (Inl e)
      with Pair createPurchase_Inl_unchanged [of userId dto now db e db1] show ?thesis by simp
    next
      case (Inr resp)
      from createPurchase_Inr [OF Pair [unfolded Inr]] obtain sis tc where
        v: "validatePurchaseItems db (dto_items dto) = Inr (sis, tc)" and
        nco: "validateNonConsumableOwnership db userId (dto_items dto) sis = Inr ()"
        by blast
      from lineItem_catalog [OF v line] unique
      have "si_type (lineItem sis l) = NON_CONSUMABLE" by blast
      with validateNonConsumableOwnership_Inr [OF nco] line owned have False by auto
      then show ?thesis ..
    qed
  qed
next
  assume owned: "findInventory db userId (pi_itemId l) \<noteq> None"
    and h: "\<not> suppressed db now userId dto
              \<and> validatePurchaseItems db (dto_items dto) = Inr (storeItems, totalCost)
              \<and> find (\<lambda>w. uw_userId w = userId) (tbl_userWallet db) = Some wallet
              \<and> totalCost \<le> uw_balance wallet"
  then have v: "validatePurchaseItems db (dto_items dto) = Inr (storeItems, totalCost)" by simp
  from lineItem_catalog [OF v line] unique
  have "si_type (lineItem storeItems l) = NON_CONSUMABLE" by blast
  from validateNonConsumableOwnership_owned
         [OF validatePurchaseItems_allFound [OF v] line this owned]
  obtain name where
    "validateNonConsumableOwnership db userId (dto_items dto) storeItems
       = Inl (BadRequestException (YouAlreadyOwn name))" ..
  with h show "\<exists>name. createPurchase userId dto now db
                        = (Inl (BadRequestException (YouAlreadyOwn name)), db)"
    by (auto simp: createPurchase_def executePurchaseTransaction_def transaction_def
                   suppressed_check getUserWallet_def purchaseTransactionBody_eq)
next
  assume h: "createPurchase userId dto now db = (Inr response, db')
          \<and> (\<forall>s\<in>set (tbl_storeItem db). si_id s = pi_itemId l
                 \<longrightarrow> \<not> (si_deliveryType s = FUNCTIONAL \<and> si_instant s))"
  then have ok: "createPurchase userId dto now db = (Inr response, db')" by simp
  from createPurchase_Inr [OF ok] obtain sis tc w rows where
    v: "validatePurchaseItems db (dto_items dto) = Inr (sis, tc)" and
    g: "grantInventory userId (dto_items dto) sis (tbl_userInventory db) = Inr rows" and
    db': "db' = committed userId (dto_items dto) sis tc now w rows db"
    by blast
  from lineItem_catalog [OF v line] unique h
  have t: "si_type (lineItem sis l) = NON_CONSUMABLE"
    and nf: "\<not> (si_deliveryType (lineItem sis l) = FUNCTIONAL \<and> si_instant (lineItem sis l))"
    by blast+
  from grantInventory_unique [OF g line t nf] db'
  show "ownedRows userId (pi_itemId l) (tbl_userInventory db) = []"
    and "ownedRows userId (pi_itemId l) (tbl_userInventory db')
               = [\<lparr>ui_userId = userId, ui_itemId = pi_itemId l, ui_quantity = 1,
                   ui_isConsumed = False\<rparr>]"
    by (simp_all add: committed_def)
qed

theorem createPurchase_unique_item_witness:
  "findInventory equipDB ''u1'' ''ak'' \<noteq> None
   \<and> (\<exists>name. createPurchase ''u1'' (request [(''ak'', 1)] None) 900000 equipDB
                = (Inl (BadRequestException (YouAlreadyOwn name)), equipDB))
   \<and> findInventory demoDB ''u1'' ''ak'' = None
   \<and> ownedRows ''u1'' ''ak''
        (tbl_userInventory (snd (createPurchase ''u1'' (request [(''ak'', 1)] None) 900000 demoDB)))
       = [\<lparr>ui_userId = ''u1'', ui_itemId = ''ak'', ui_quantity = 1, ui_isConsumed = False\<rparr>]"
proof -
  let ?dto = "request [(''ak'', 1)] None"
  let ?l = "\<lparr>pi_itemId = ''ak'', pi_quantity = 1\<rparr>"
  let ?w = "\<lparr>uw_id = ''w1'', uw_userId = ''u1'', uw_balance = 4500\<rparr>"
  let ?resp = "(\<lparr>pu_id = ''c'', pu_userId = ''u1'', pu_totalAmount = 2500,
                  pu_status = PurchaseCOMPLETED, pu_paymentMethod = ''GEMS'',
                  pu_createdAt = 900000\<rparr>,
                [\<lparr>pit_purchaseId = ''c'', pit_itemId = ''ak'', pit_quantity = 1,
                   pit_unitPrice = 2500, pit_totalPrice = 2500\<rparr>])"
  have line: "?l \<in> set (dto_items ?dto)"
    by code_simp
  have uniqueE: "\<forall>s\<in>set (tbl_storeItem equipDB). si_id s = pi_itemId ?l \<longrightarrow> si_type s = NON_CONSUMABLE"
    by code_simp
  have uniqueD: "\<forall>s\<in>set (tbl_storeItem demoDB). si_id s = pi_itemId ?l \<longrightarrow> si_type s = NON_CONSUMABLE"
    by code_simp
  have plain: "\<forall>s\<in>set (tbl_storeItem demoDB). si_id s = pi_itemId ?l
                 \<longrightarrow> \<not> (si_deliveryType s = FUNCTIONAL \<and> si_instant s)"
    by code_simp
  have owned: "findInventory equipDB ''u1'' (pi_itemId ?l) \<noteq> None"
    by code_simp
  have unowned: "findInventory demoDB ''u1'' ''ak'' = None"
    by code_simp
  have fresh: "\<not> suppressed equipDB 900000 ''u1'' ?dto"
    by code_simp
  have valid: "validatePurchaseItems equipDB (dto_items ?dto) = Inr ([akSkin], 2500)"
    by code_simp
  have wallet: "find (\<lambda>w. uw_userId w = ''u1'') (tbl_userWallet equipDB) = Some ?w"
    by code_simp
  have "fst (createPurchase ''u1'' ?dto 900000 demoDB) = Inr ?resp"
    by code_simp
  then have ok: "createPurchase ''u1'' ?dto 900000 demoDB
                   = (Inr ?resp, snd (createPurchase ''u1'' ?dto 900000 demoDB))"
    by (simp add: prod_eq_iff)
  from createPurchase_unique_item [OF line uniqueE, of "''u1''" 900000 "[akSkin]" 2500 ?w]
       owned fresh valid wallet
  have a: "\<exists>name. createPurchase ''u1'' ?dto 900000 equipDB
                    = (Inl (BadRequestException (YouAlreadyOwn name)), equipDB)"
    by simp
  from createPurchase_unique_item [OF line uniqueD, of "''u1''" 900000 _ _ _ ?resp
         "snd (createPurchase ''u1'' ?dto 900000 demoDB)"] ok plain
  have b: "ownedRows ''u1'' ''ak'' (tbl_userInventory (snd (createPurchase ''u1'' ?dto 900000 demoDB)))
             = [\<lparr>ui_userId = ''u1'', ui_itemId = ''ak'', ui_quantity = 1, ui_isConsumed = False\<rparr>]"
    by simp
  from a b owned unowned show ?thesis by simp
qed

text \<open>
  C3 as stated fails: the demo user who owns the AK-47 skin and buys it again gets
  \<open>BadRequestException\<close>, not \<open>ConflictException\<close>.
\<close>

theorem createPurchase_unique_item_counterexample:
  "findInventory equipDB ''u1'' ''ak'' \<noteq> None
   \<and> createPurchase ''u1'' (request [(''ak'', 1)] None) 900000 equipDB
       = (Inl (BadRequestException (YouAlreadyOwn (si_name akSkin))), equipDB)"
  by code_simp

text \<open>
  C4. At most one active profile per user and game. The claim fails for profile creation:
  \<open>createCharacterProfile\<close> writes every new profile with \<open>isActive = true\<close> and clears
  no flag. In the demo store the platform-wide partition of the demo user has one active
  profile; after creating a second platform-wide profile it has two.
\<close>

theorem createCharacterProfile_two_active:
  "length (activeProfiles demoDB ''u1'' None) = 1
   \<and> map cp_name
        (activeProfiles
           (snd (createCharacterProfile ''u1'' \<lparr>ccp_name = ''Second'', ccp_gameId = None\<rparr> demoDB))
           ''u1'' None)
       = [''BattleBucksChampion'', ''Second'']"
  by code_simp



text \<open>
  C6. Duplicate suppression. With a key (present and not empty) \<open>createPurchase\<close> throws
  \<open>ConflictException\<close> exactly when the user has a purchase created in the last five
  minutes (300000 ms, bound included), whatever the key is, and then writes nothing.
  Without a key, or with the empty string, it never throws \<open>ConflictException\<close>.
\<close>

theorem createPurchase_duplicate_suppression:
  "(truthy (dto_idempotencyKey dto) \<longrightarrow>
      (fst (createPurchase userId dto now db) = Inl (ConflictException DuplicatePurchaseDetected))
        = (\<exists>p\<in>set (tbl_purchase db). pu_userId p = userId \<and> now - 300000 \<le> pu_createdAt p)
      \<and> (\<forall>m. fst (createPurchase userId dto now db) = Inl (ConflictException m)
               \<longrightarrow> m = DuplicatePurchaseDetected \<and> snd (createPurchase userId dto now db) = db))
   \<and> (\<not> truthy (dto_idempotencyKey dto) \<longrightarrow>
        (\<forall>m. fst (createPurchase userId dto now db) \<noteq> Inl (ConflictException m)))"
proof (cases "truthy (dto_idempotencyKey dto)")
  case False
  then show ?thesis
    using createPurchase_afterCheck_noConflict [of dto db now userId] by simp
next
  case True
  show ?thesis
  proof (cases "checkDuplicatePurchase db now userId (the (dto_idempotencyKey dto))")
    case None
    then have "\<not> (\<exists>p\<in>set (tbl_purchase db). pu_userId p = userId \<and> now - 300000 \<le> pu_createdAt p)"
      by (simp add: checkDuplicatePurchase_def find_None_conv)
    with True None show ?thesis
      using createPurchase_afterCheck_noConflict [of dto db now userId] by simp
  next
    case (Some p)
    then have "\<exists>p\<in>set (tbl_purchase db). pu_userId p = userId \<and> now - 300000 \<le> pu_createdAt p"
      using find_Some_props [of _ "tbl_purchase db" p]
      by (auto simp: checkDuplicatePurchase_def)
    with True Some show ?thesis
      by (simp add: createPurchase_def)
  qed
qed

theorem createPurchase_duplicate_suppression_witness:
  "truthy (dto_idempotencyKey (request [(''gems'', 1)] (Some ''k1'')))
   \<and> (\<exists>p\<in>set (tbl_purchase demoDB). pu_userId p = ''u1'' \<and> 1000 - 300000 \<le> pu_createdAt p)
   \<and> fst (createPurchase ''u1'' (request [(''gems'', 1)] (Some ''k1'')) 1000 demoDB)
       = Inl (ConflictException DuplicatePurchaseDetected)
   \<and> \<not> (\<exists>p\<in>set (tbl_purchase demoDB). pu_userId p = ''u1'' \<and> 900000 - 300000 \<le> pu_createdAt p)
   \<and> fst (createPurchase ''u1'' (request [(''gems'', 1)] (Some ''k1'')) 900000 demoDB)
       \<noteq> Inl (ConflictException DuplicatePurchaseDetected)
   \<and> \<not> truthy (dto_idempotencyKey (request [(''gems'', 1)] None))
   \<and> fst (createPurchase ''u1'' (request [(''gems'', 1)] None) 1000 demoDB)
       \<noteq> Inl (ConflictException DuplicatePurchaseDetected)"
proof -
  have k: "truthy (dto_idempotencyKey (request [(''gems'', 1)] (Some ''k1'')))"
    by code_simp
  have n: "\<not> truthy (dto_idempotencyKey (request [(''gems'', 1)] None))"
    by code_simp
  have recent: "\<exists>p\<in>set (tbl_purchase demoDB). pu_userId p = ''u1'' \<and> 1000 - 300000 \<le> pu_createdAt p"
    by code_simp
  have old: "\<not> (\<exists>p\<in>set (tbl_purchase demoDB). pu_userId p = ''u1'' \<and> 900000 - 300000 \<le> pu_createdAt p)"
    by code_simp
  show ?thesis
    using createPurchase_duplicate_suppression [of "request [(''gems'', 1)] (Some ''k1'')" "''u1''" 1000 demoDB]
          createPurchase_duplicate_suppression [of "request [(''gems'', 1)] (Some ''k1'')" "''u1''" 900000 demoDB]
          createPurchase_duplicate_suppression [of "request [(''gems'', 1)] None" "''u1''" 1000 demoDB]
          k n recent old
    by simp
qed

text \<open>
  C7. For an order that is not COMPLETED the claim asks for the invalid-request error
  (\<open>BadRequestException\<close>), and so does the documentation of the endpoint in the
  controller: 400 for a purchase that cannot be retried, 404 for a purchase that is not
  found. The service throws \<open>NotFoundException\<close> instead. Purchase \<open>o2\<close> of the demo
  user is FAILED and has a FAILED fulfillment; the retry is answered with
  \<open>NotFoundException\<close>, and nothing is written.
\<close>

theorem retryPurchase_not_completed:
  "map (\<lambda>p. (pu_userId p, pu_status p)) (filter (\<lambda>p. pu_id p = ''o2'') (tbl_purchase retryDB))
     = [(''u1'', PurchaseFAILED)]
   \<and> map if_status (filter (\<lambda>f. if_purchaseId f = ''o2'') (tbl_itemFulfillment retryDB))
       = [FAILED]
   \<and> retryPurchase ''u1'' ''o2'' 5000 retryDB
       = (Inl (NotFoundException PurchaseNotFoundOrCannotBeRetried), retryDB)"
  by code_simp

text \<open>
  C8. A committed purchase appends exactly one fulfillment row per line, in the order of
  the lines, each for the item of its line and with the delivery type of that item.
  For IN_GAME and FUNCTIONAL items the row is COMPLETED and \<open>completedAt\<close> is the time of
  the purchase; for EMAIL and SHOPIFY items the row is PENDING and \<open>completedAt\<close> is
  empty.
\<close>

theorem createPurchase_fulfillments:
  assumes ok: "createPurchase userId dto now db = (Inr response, db')"
  shows "\<exists>rows. tbl_itemFulfillment db' = tbl_itemFulfillment db @ rows
           \<and> length rows = length (dto_items dto)
           \<and> (\<forall>k<length (dto_items dto).
                 \<exists>s\<in>set (tbl_storeItem db).
                    si_id s = pi_itemId (dto_items dto ! k)
                  \<and> if_purchaseId (rows ! k) = cuid (idCounter db)
                  \<and> if_userId (rows ! k) = userId
                  \<and> if_itemId (rows ! k) = pi_itemId (dto_items dto ! k)
                  \<and> if_deliveryType (rows ! k) = si_deliveryType s
                  \<and> if_attempts (rows ! k) = 0
                  \<and> if_lastAttempt (rows ! k) = None
                  \<and> (si_deliveryType s = IN_GAME \<or> si_deliveryType s = FUNCTIONAL
                       \<longrightarrow> if_status (rows ! k) = COMPLETED \<and> if_completedAt (rows ! k) = Some now)
                  \<and> (si_deliveryType s = EMAIL \<or> si_deliveryType s = SHOPIFY
                       \<longrightarrow> if_status (rows ! k) = PENDING \<and> if_completedAt (rows ! k) = None))"
proof -
  let ?its = "dto_items dto"
  from createPurchase_Inr [OF ok] obtain sis tc w inv where
    v: "validatePurchaseItems db ?its = Inr (sis, tc)" and
    db': "db' = committed userId ?its sis tc now w inv db"
    by blast
  let ?rows = "map (\<lambda>l. newFulfillment (cuid (idCounter db)) userId now l (lineItem sis l)) ?its"
  have "\<forall>k<length ?its.
          \<exists>s\<in>set (tbl_storeItem db).
             si_id s = pi_itemId (?its ! k)
           \<and> if_purchaseId (?rows ! k) = cuid (idCounter db)
           \<and> if_userId (?rows ! k) = userId
           \<and> if_itemId (?rows ! k) = pi_itemId (?its ! k)
           \<and> if_deliveryType (?rows ! k) = si_deliveryType s
           \<and> if_attempts (?rows ! k) = 0
           \<and> if_lastAttempt (?rows ! k) = None
           \<and> (si_deliveryType s = IN_GAME \<or> si_deliveryType s = FUNCTIONAL
                \<longrightarrow> if_status (?rows ! k) = COMPLETED \<and> if_completedAt (?rows ! k) = Some now)
           \<and> (si_deliveryType s = EMAIL \<or> si_deliveryType s = SHOPIFY
                \<longrightarrow> if_status (?rows ! k) = PENDING \<and> if_completedAt (?rows ! k) = None)"
  proof (intro allI impI)
    fix k assume k: "k < length ?its"
    then have "?its ! k \<in> set ?its" by simp
    from lineItem_catalog [OF v this]
    have "lineItem sis (?its ! k) \<in> set (tbl_storeItem db)"
      and "si_id (lineItem sis (?its ! k)) = pi_itemId (?its ! k)" by simp_all
    then show "\<exists>s\<in>set (tbl_storeItem db).
             si_id s = pi_itemId (?its ! k)
           \<and> if_purchaseId (?rows ! k) = cuid (idCounter db)
           \<and> if_userId (?rows ! k) = userId
           \<and> if_itemId (?rows ! k) = pi_itemId (?its ! k)
           \<and> if_deliveryType (?rows ! k) = si_deliveryType s
           \<and> if_attempts (?rows ! k) = 0
           \<and> if_lastAttempt (?rows ! k) = None
           \<and> (si_deliveryType s = IN_GAME \<or> si_deliveryType s = FUNCTIONAL
                \<longrightarrow> if_status (?rows ! k) = COMPLETED \<and> if_completedAt (?rows ! k) = Some now)
           \<and> (si_deliveryType s = EMAIL \<or> si_deliveryType s = SHOPIFY
                \<longrightarrow> if_status (?rows ! k) = PENDING \<and> if_completedAt (?rows ! k) = None)"
      using k by (intro bexI [of _ "lineItem sis (?its ! k)"]) (auto simp: newFulfillment_def Let_def)
  qed
  moreover have "tbl_itemFulfillment db' = tbl_itemFulfillment db @ ?rows"
    by (simp add: db' committed_def)
  moreover have "length ?rows = length ?its" by simp
  ultimately show ?thesis by blast
qed

theorem createPurchase_fulfillments_witness:
  "(\<exists>response. createPurchase ''u1'' (request [(''ak'', 1), (''shirt'', 1)] None) 900000 demoDB
        = (Inr response, snd (createPurchase ''u1'' (request [(''ak'', 1), (''shirt'', 1)] None) 900000 demoDB)))
   \<and> length (tbl_itemFulfillment
                (snd (createPurchase ''u1'' (request [(''ak'', 1), (''shirt'', 1)] None) 900000 demoDB)))
       = 2
   \<and> map (\<lambda>f. (if_itemId f, if_deliveryType f, if_status f, if_completedAt f))
        (tbl_itemFulfillment
           (snd (createPurchase ''u1'' (request [(''ak'', 1), (''shirt'', 1)] None) 900000 demoDB)))
       = [(''ak'', IN_GAME, COMPLETED, Some 900000), (''shirt'', SHOPIFY, PENDING, None)]"
proof -
  let ?dto = "request [(''ak'', 1), (''shirt'', 1)] None"
  let ?resp = "(\<lparr>pu_id = ''c'', pu_userId = ''u1'', pu_totalAmount = 4000,
                  pu_status = PurchaseCOMPLETED, pu_paymentMethod = ''GEMS'',
                  pu_createdAt = 900000\<rparr>,
                [\<lparr>pit_purchaseId = ''c'', pit_itemId = ''ak'', pit_quantity = 1,
                   pit_unitPrice = 2500, pit_totalPrice = 2500\<rparr>,
                 \<lparr>pit_purchaseId = ''c'', pit_itemId = ''shirt'', pit_quantity = 1,
                   pit_unitPrice = 1500, pit_totalPrice = 1500\<rparr>])"
  let ?db' = "snd (createPurchase ''u1'' ?dto 900000 demoDB)"
  have "fst (createPurchase ''u1'' ?dto 900000 demoDB) = Inr ?resp"
    by code_simp
  then have ok: "createPurchase ''u1'' ?dto 900000 demoDB = (Inr ?resp, ?db')"
    by (simp add: prod_eq_iff)
  have n: "length (dto_items ?dto) = 2" "tbl_itemFulfillment demoDB = []"
    by code_simp+
  from createPurchase_fulfillments [OF ok] n
  have len: "length (tbl_itemFulfillment ?db') = 2"
    by auto
  have rows: "map (\<lambda>f. (if_itemId f, if_deliveryType f, if_status f, if_completedAt f))
                (tbl_itemFulfillment ?db')
              = [(''ak'', IN_GAME, COMPLETED, Some 900000), (''shirt'', SHOPIFY, PENDING, None)]"
    by code_simp
  from ok len rows show ?thesis by blast
qed




text \<open>
  C10, as amended. With no negative price and no negative gem amount in the catalogue, a
  committed purchase appends to the wallet transactions exactly one DEBIT row, whose
  amount is the total of the purchase and is at least 0, and after it one CREDIT row
  with an amount greater than 0 for each line that credits gems; the amounts of the
  earlier rows stay as they are. The balance changes by exactly these rows: minus the
  debit, plus the credits. All of it happens inside the purchase transaction.
\<close>

theorem createPurchase_wallet_rows:
  assumes ok: "createPurchase userId dto now db = (Inr response, db')"
    and prices: "\<forall>s\<in>set (tbl_storeItem db). 0 \<le> si_price s"
    and gems: "\<forall>s\<in>set (tbl_storeItem db). \<forall>g. si_gemAmount s = Some g \<longrightarrow> 0 \<le> g"
  shows "\<exists>wallet totalCost gemCredits.
           find (\<lambda>w. uw_userId w = userId) (tbl_userWallet db) = Some wallet
         \<and> map (\<lambda>t. (wt_type t, wt_amount t)) (tbl_walletTransaction db')
             = map (\<lambda>t. (wt_type t, wt_amount t)) (tbl_walletTransaction db)
               @ (DEBIT, totalCost) # map (Pair CREDIT) gemCredits
         \<and> pu_totalAmount (last (tbl_purchase db')) = totalCost
         \<and> 0 \<le> totalCost
         \<and> (\<forall>c\<in>set gemCredits. 0 < c)
         \<and> find (\<lambda>w. uw_userId w = userId) (tbl_userWallet db')
             = Some (wallet\<lparr>uw_balance := uw_balance wallet - totalCost + sum_list gemCredits\<rparr>)"
proof -
  let ?its = "dto_items dto"
  from createPurchase_Inr [OF ok] obtain sis tc w rows where
    v: "validatePurchaseItems db ?its = Inr (sis, tc)" and
    w: "find (\<lambda>w. uw_userId w = userId) (tbl_userWallet db) = Some w" and
    db': "db' = committed userId ?its sis tc now w rows db"
    by blast
  have "\<forall>s\<in>set sis. 0 \<le> si_price s"
    using prices validatePurchaseItems_Inr(2) [OF v] by simp
  with validateLoop_nonneg [OF validatePurchaseItems_Inr(4) [OF v]] have tc: "0 \<le> tc" by simp
  have t: "map (\<lambda>t. (wt_type t, wt_amount t)) (tbl_walletTransaction db')
           = map (\<lambda>t. (wt_type t, wt_amount t)) (tbl_walletTransaction db)
             @ (DEBIT, tc) # map (Pair CREDIT) (credits sis ?its)"
    using creditRows_credits [of "uw_id w" sis ?its]
    by (simp add: db' committed_def o_def debitRow_def)
  have p: "pu_totalAmount (last (tbl_purchase db')) = tc"
    by (simp add: db' committed_def newPurchase_def)
  have b: "find (\<lambda>w. uw_userId w = userId) (tbl_userWallet db')
             = Some (w\<lparr>uw_balance := uw_balance w - tc + sum_list (credits sis ?its)\<rparr>)"
    using find_wallet_committed [OF w] by (simp add: db' totalCredit_credits)
  from w t p tc credits_positive [OF v gems] b show ?thesis by blast
qed

theorem createPurchase_wallet_rows_witness:
  "map si_price (tbl_storeItem demoDB) = [2500, 1800, 500, 1500, 0]
   \<and> map si_gemAmount (tbl_storeItem demoDB) = [None, None, None, None, Some 1000]
   \<and> map (\<lambda>t. (wt_type t, wt_amount t))
         (tbl_walletTransaction (snd (createPurchase ''u1'' (request [(''gems'', 1)] None) 900000 demoDB)))
       = [(CREDIT, 5000), (DEBIT, 500)] @ (DEBIT, 0) # map (Pair CREDIT) [1000]
   \<and> find (\<lambda>w. uw_userId w = ''u1'')
         (tbl_userWallet (snd (createPurchase ''u1'' (request [(''gems'', 1)] None) 900000 demoDB)))
       = Some \<lparr>uw_id = ''w1'', uw_userId = ''u1'', uw_balance = 4500 - 0 + sum_list [1000]\<rparr>"
proof -
  let ?dto = "request [(''gems'', 1)] None"
  let ?resp = "(\<lparr>pu_id = ''c'', pu_userId = ''u1'', pu_totalAmount = 0,
                  pu_status = PurchaseCOMPLETED, pu_paymentMethod = ''GEMS'',
                  pu_createdAt = 900000\<rparr>,
                [\<lparr>pit_purchaseId = ''c'', pit_itemId = ''gems'', pit_quantity = 1,
                   pit_unitPrice = 0, pit_totalPrice = 0\<rparr>])"
  let ?db' = "snd (createPurchase ''u1'' ?dto 900000 demoDB)"
  have "fst (createPurchase ''u1'' ?dto 900000 demoDB) = Inr ?resp"
    by code_simp
  then have ok: "createPurchase ''u1'' ?dto 900000 demoDB = (Inr ?resp, ?db')"
    by (simp add: prod_eq_iff)
  have p: "map si_price (tbl_storeItem demoDB) = [2500, 1800, 500, 1500, 0]"
    by code_simp
  have g: "map si_gemAmount (tbl_storeItem demoDB) = [None, None, None, None, Some 1000]"
    by code_simp
  have prices: "\<forall>s\<in>set (tbl_storeItem demoDB). 0 \<le> si_price s"
    by code_simp
  have gems: "\<forall>s\<in>set (tbl_storeItem demoDB). \<forall>g. si_gemAmount s = Some g \<longrightarrow> 0 \<le> g"
    by (simp add: demoDB_def akSkin_def ghostSkin_def xpToken_def tShirt_def gemPack_def)
  have old: "map (\<lambda>t. (wt_type t, wt_amount t)) (tbl_walletTransaction demoDB)
               = [(CREDIT, 5000), (DEBIT, 500)]"
    by code_simp
  have new: "map (\<lambda>t. (wt_type t, wt_amount t)) (tbl_walletTransaction ?db')
               = [(CREDIT, 5000), (DEBIT, 500), (DEBIT, 0), (CREDIT, 1000)]"
    by code_simp
  have wallet: "find (\<lambda>w. uw_userId w = ''u1'') (tbl_userWallet demoDB)
                  = Some \<lparr>uw_id = ''w1'', uw_userId = ''u1'', uw_balance = 4500\<rparr>"
    by code_simp
  from createPurchase_wallet_rows [OF ok prices gems]
  obtain w tc gc where
    w: "find (\<lambda>w. uw_userId w = ''u1'') (tbl_userWallet demoDB) = Some w" and
    rows: "map (\<lambda>t. (wt_type t, wt_amount t)) (tbl_walletTransaction ?db')
             = map (\<lambda>t. (wt_type t, wt_amount t)) (tbl_walletTransaction demoDB)
               @ (DEBIT, tc) # map (Pair CREDIT) gc" and
    bal: "find (\<lambda>w. uw_userId w = ''u1'') (tbl_userWallet ?db')
            = Some (w\<lparr>uw_balance := uw_balance w - tc + sum_list gc\<rparr>)"
    by blast
  from rows old new have tc: "tc = 0" and gc: "map (Pair CREDIT) gc = [(CREDIT, 1000)]"
    by simp_all
  from gc have "gc = [1000]"
    by (auto simp: map_eq_Cons_conv)
  moreover from w wallet have "w = \<lparr>uw_id = ''w1'', uw_userId = ''u1'', uw_balance = 4500\<rparr>"
    by simp
  ultimately show ?thesis
    using bal tc p g new by simp
qed

text \<open>
  C10 as stated fails: buying the free gem pack writes a DEBIT row with amount 0.
\<close>

theorem createPurchase_wallet_rows_counterexample:
  "map (\<lambda>t. (wt_type t, wt_amount t))
     (tbl_walletTransaction (snd (createPurchase ''u1'' (request [(''gems'', 1)] None) 900000 demoDB)))
   = [(CREDIT, 5000), (DEBIT, 500), (DEBIT, 0), (CREDIT, 1000)]"
  by code_simp

end
